theory Spec2Isabelle
  imports Complex_Main "HOL-Library.AList"
begin


section \<open>JavaScript values\<close>

text \<open>
  The session store keeps plain JavaScript objects and writes to them through
  computed property names (\<open>(session.state as Record<string, unknown>)[target] = value\<close>),
  spreads (\<open>{ ...session.state, ...updates }\<close>) and \<open>JSON.stringify\<close>. The sessions
  are therefore embedded as values of one universal type; the TypeScript interfaces
  appear as the property names the functions read and write.

  Numbers are the finite doubles read as reals (no NaN, no infinities). An object
  is the list of its own properties in insertion order; the prototype chain is not
  modelled. A \<open>Map\<close> is the list of its entries, keyed by strings. An array or a
  \<open>Map\<close> that has been given named properties of its own (\<open>arr['note'] = v\<close>,
  \<open>map['note'] = v\<close>) carries them as a second list: \<open>JArrP\<close>, \<open>JMapP\<close>. A hole of an
  array reads as \<open>undefined\<close> and is kept as \<open>undefined\<close>.
\<close>

text \<open>
  The names of the properties of \<open>Object.prototype\<close>. A table written as an object
  literal answers a lookup of one of them with the inherited function or object when it
  has no own property of that name.
\<close>

definition object_prototype_keys :: "string list" where
  "object_prototype_keys =
     [''constructor'', ''__defineGetter__'', ''__defineSetter__'', ''hasOwnProperty'',
      ''__lookupGetter__'', ''__lookupSetter__'', ''isPrototypeOf'', ''propertyIsEnumerable'',
      ''toString'', ''valueOf'', ''__proto__'', ''toLocaleString'']"

datatype jsval =
    JUndef
  | JNull
  | JBool bool
  | JNum real
  | JStr string
  | JArr "jsval list"
  | JObj "(string \<times> jsval) list"
  | JMap "(string \<times> jsval) list"
  | JArrP "jsval list" "(string \<times> jsval) list"
  | JMapP "(string \<times> jsval) list" "(string \<times> jsval) list"

text \<open>
  \<open>TypeError\<close> is the exception JavaScript throws on a property access on
  \<open>undefined\<close> or \<open>null\<close>, on a call of something that is not a function, on a
  conversion of an object that has no callable \<open>toString\<close> and, in strict mode, on a
  property write to a primitive or to an accessor without a setter. \<open>RangeError\<close> is
  thrown for an invalid array length. \<open>PersonaNotFound\<close> is the \<open>Error\<close> thrown by
  \<open>PersonaManager.generateDialogue\<close>. \<open>OutsideModel\<close> marks the places where the
  program would go on with a coercion or a built-in property that this embedding does
  not describe.
\<close>

datatype error = TypeError | RangeError | PersonaNotFound string | OutsideModel

definition ebind :: "error + 'a \<Rightarrow> ('a \<Rightarrow> error + 'b) \<Rightarrow> error + 'b" where
  "ebind m f = (case m of Inl e \<Rightarrow> Inl e | Inr x \<Rightarrow> f x)"

fun truthy :: "jsval \<Rightarrow> bool" where
  "truthy JUndef = False"
| "truthy JNull = False"
| "truthy (JBool b) = b"
| "truthy (JNum n) = (n \<noteq> 0)"
| "truthy (JStr s) = (s \<noteq> [])"
| "truthy (JArr xs) = True"
| "truthy (JObj ps) = True"
| "truthy (JMap ps) = True"
| "truthy (JArrP xs ps) = True"
| "truthy (JMapP es ps) = True"

text \<open>\<open>a || b\<close>\<close>

definition js_or :: "jsval \<Rightarrow> jsval \<Rightarrow> jsval" where
  "js_or a b = (if truthy a then a else b)"

text \<open>
  \<open>v[k]\<close>, an own property. A boolean, a number and a \<open>Map\<close> without named properties
  have none; the indices and the length of a string or an array are not modelled.
\<close>

fun get_prop :: "jsval \<Rightarrow> string \<Rightarrow> error + jsval" where
  "get_prop (JObj ps) k = Inr (case map_of ps k of None \<Rightarrow> JUndef | Some v \<Rightarrow> v)"
| "get_prop JUndef k = Inl TypeError"
| "get_prop JNull k = Inl TypeError"
| "get_prop (JBool b) k = Inr JUndef"
| "get_prop (JNum n) k = Inr JUndef"
| "get_prop (JMap es) k = Inr JUndef"
| "get_prop (JMapP es ps) k = Inr (case map_of ps k of None \<Rightarrow> JUndef | Some v \<Rightarrow> v)"
| "get_prop (JStr s) k = Inl OutsideModel"
| "get_prop (JArr xs) k = Inl OutsideModel"
| "get_prop (JArrP xs ps) k = Inl OutsideModel"

subsection \<open>Conversion to a number\<close>

text \<open>
  \<open>ToNumber\<close>, which the write to the \<open>length\<close> of an array applies to the value
  written. Its result is \<open>NotFinite\<close> for \<open>NaN\<close> and the infinities, \<open>Finite r\<close> for
  the double \<open>r\<close>, \<open>Decimal r\<close> for the double nearest to the real \<open>r\<close> that a numeral
  denotes, where the rounding is not computed, and \<open>Unmodelled\<close> for a text with a
  character outside ASCII.
\<close>

datatype number = NotFinite | Finite real | Decimal real | Unmodelled

definition digit_value :: "char \<Rightarrow> nat option" where
  "digit_value c =
     map_of (zip ''0123456789abcdefABCDEF''
               [0, 1, 2, 3, 4, 5, 6, 7, 8, 9, 10, 11, 12, 13, 14, 15, 10, 11, 12, 13, 14, 15]) c"

definition is_digit :: "nat \<Rightarrow> char \<Rightarrow> bool" where
  "is_digit base c = (case digit_value c of None \<Rightarrow> False | Some d \<Rightarrow> d < base)"

text \<open>The value of a string of digits, read from the left with \<open>acc\<close> as the value so far.\<close>

fun digits_value :: "nat \<Rightarrow> nat \<Rightarrow> string \<Rightarrow> nat" where
  "digits_value base acc [] = acc"
| "digits_value base acc (c # cs) =
     digits_value base (acc * base + (case digit_value c of None \<Rightarrow> 0 | Some d \<Rightarrow> d)) cs"

text \<open>The white space and the line terminators of ASCII.\<close>

definition is_space :: "char \<Rightarrow> bool" where
  "is_space c = (c \<in> set [CHR 0x09, CHR 0x0A, CHR 0x0B, CHR 0x0C, CHR 0x0D, CHR 0x20])"

definition trim :: "string \<Rightarrow> string" where
  "trim s = rev (dropWhile is_space (rev (dropWhile is_space s)))"

text \<open>A mathematical value as a number: exact when it is an integer that a double holds.\<close>

definition as_double :: "real \<Rightarrow> number" where
  "as_double r = (if r = of_int \<lfloor>r\<rfloor> \<and> \<bar>r\<bar> \<le> 2 ^ 53 then Finite r else Decimal r)"

text \<open>\<open>0x\<close>, \<open>0o\<close> and \<open>0b\<close> numerals: the digits after the prefix.\<close>

definition radix_numeral :: "nat \<Rightarrow> string \<Rightarrow> number" where
  "radix_numeral base ds =
     (if ds \<noteq> [] \<and> list_all (is_digit base) ds then as_double (of_nat (digits_value base 0 ds))
      else NotFinite)"

text \<open>
  An exponent part \<open>e\<close>, \<open>e+\<close> or \<open>e-\<close> with digits, or nothing: the power of ten to
  multiply with, \<open>None\<close> when the text is neither.
\<close>

definition exponent_part :: "string \<Rightarrow> real option" where
  "exponent_part s =
     (if s = [] then Some 1
      else if hd s = CHR ''e'' \<or> hd s = CHR ''E'' then
        (let r = tl s;
             negative = (r \<noteq> [] \<and> hd r = CHR ''-'');
             ds = (if r \<noteq> [] \<and> (hd r = CHR ''+'' \<or> hd r = CHR ''-'') then tl r else r)
         in if ds \<noteq> [] \<and> list_all (is_digit 10) ds
            then Some (if negative then 1 / 10 ^ digits_value 10 0 ds else 10 ^ digits_value 10 0 ds)
            else None)
      else None)"

text \<open>An unsigned decimal numeral: digits, a fraction and an exponent, \<open>Infinity\<close> apart.\<close>

definition unsigned_decimal :: "string \<Rightarrow> real option" where
  "unsigned_decimal s =
     (let ip = takeWhile (is_digit 10) s;
          r1 = dropWhile (is_digit 10) s;
          dot = (r1 \<noteq> [] \<and> hd r1 = CHR ''.'');
          fp = (if dot then takeWhile (is_digit 10) (tl r1) else []);
          r2 = (if dot then dropWhile (is_digit 10) (tl r1) else r1)
      in if ip = [] \<and> fp = [] then None
         else (case exponent_part r2 of
                 None \<Rightarrow> None
               | Some e \<Rightarrow>
                   Some ((of_nat (digits_value 10 0 ip) +
                          of_nat (digits_value 10 0 fp) / 10 ^ length fp) * e)))"

text \<open>\<open>StringToNumber\<close>\<close>

definition string_number :: "string \<Rightarrow> number" where
  "string_number s =
     (if \<not> list_all (\<lambda>c. of_char c < (128 :: nat)) s then Unmodelled
      else
        (let t = trim s in
         if t = [] then Finite 0
         else if take 2 t = ''0x'' \<or> take 2 t = ''0X'' then radix_numeral 16 (drop 2 t)
         else if take 2 t = ''0o'' \<or> take 2 t = ''0O'' then radix_numeral 8 (drop 2 t)
         else if take 2 t = ''0b'' \<or> take 2 t = ''0B'' then radix_numeral 2 (drop 2 t)
         else
           (let negative = (hd t = CHR ''-'');
                u = (if hd t = CHR ''+'' \<or> hd t = CHR ''-'' then tl t else t)
            in if u = ''Infinity'' then NotFinite
               else (case unsigned_decimal u of
                       None \<Rightarrow> NotFinite
                     | Some r \<Rightarrow> as_double (if negative then - r else r)))))"

text \<open>
  The conversion of an object to a primitive calls its \<open>valueOf\<close> and \<open>toString\<close>. The
  inherited \<open>valueOf\<close> returns the object itself, so the string of \<open>toString\<close> decides;
  an own property \<open>toString\<close> holds data, which cannot be called, and the conversion
  throws a \<open>TypeError\<close>. An array without an own \<open>join\<close> converts its elements.
\<close>

fun conversion_throws :: "jsval \<Rightarrow> bool" where
  "conversion_throws (JObj ps) = (''toString'' \<in> set (map fst ps))"
| "conversion_throws (JMapP es ps) = (''toString'' \<in> set (map fst ps))"
| "conversion_throws (JArr xs) = list_ex conversion_throws xs"
| "conversion_throws (JArrP xs ps) =
     (if ''toString'' \<in> set (map fst ps) then True
      else if ''join'' \<in> set (map fst ps) then False
      else list_ex conversion_throws xs)"
| "conversion_throws v = False"

text \<open>
  \<open>ToNumber\<close> of a value whose conversion does not throw; \<open>inside\<close> says that the value
  is the only element of an array that is being converted, where \<open>undefined\<close> and
  \<open>null\<close> are the empty string and a boolean is its name. An array is the number of
  its elements joined by commas: \<open>0\<close> when empty, not a number with two elements or more.
\<close>

fun to_number :: "bool \<Rightarrow> jsval \<Rightarrow> number" where
  "to_number inside JUndef = (if inside then Finite 0 else NotFinite)"
| "to_number inside JNull = Finite 0"
| "to_number inside (JBool b) = (if inside then NotFinite else Finite (if b then 1 else 0))"
| "to_number inside (JNum n) = Finite n"
| "to_number inside (JStr s) = string_number s"
| "to_number inside (JObj ps) = NotFinite"
| "to_number inside (JMap es) = NotFinite"
| "to_number inside (JMapP es ps) = NotFinite"
| "to_number inside (JArr []) = Finite 0"
| "to_number inside (JArr [x]) = to_number True x"
| "to_number inside (JArr (x # y # zs)) = NotFinite"
| "to_number inside (JArrP [] ps) = (if ''join'' \<in> set (map fst ps) then NotFinite else Finite 0)"
| "to_number inside (JArrP [x] ps) =
     (if ''join'' \<in> set (map fst ps) then NotFinite else to_number True x)"
| "to_number inside (JArrP (x # y # zs) ps) = NotFinite"

text \<open>
  The length a write to \<open>length\<close> sets: the number must be an integer from \<open>0\<close> to
  \<open>2\<^sup>3\<^sup>2 - 1\<close>, otherwise a \<open>RangeError\<close> is thrown. A decimal numeral that is no such
  integer is rounded to a double first; between \<open>-1\<close> and \<open>2\<^sup>3\<^sup>2\<close> the rounding moves
  it by less than a quarter, so only a numeral within a quarter of an integer is left
  open.
\<close>

definition valid_length :: "real \<Rightarrow> bool" where
  "valid_length r \<longleftrightarrow> 0 \<le> r \<and> r \<le> 2 ^ 32 - 1 \<and> r = of_int \<lfloor>r\<rfloor>"

definition array_length :: "jsval \<Rightarrow> error + nat" where
  "array_length v =
     (if conversion_throws v then Inl TypeError
      else (case to_number False v of
              NotFinite \<Rightarrow> Inl RangeError
            | Unmodelled \<Rightarrow> Inl OutsideModel
            | Finite r \<Rightarrow> if valid_length r then Inr (nat \<lfloor>r\<rfloor>) else Inl RangeError
            | Decimal r \<Rightarrow>
                if r < - 1 \<or> 2 ^ 32 < r \<or>
                   (1 / 4 < r - of_int \<lfloor>r\<rfloor> \<and> r - of_int \<lfloor>r\<rfloor> < 3 / 4)
                then Inl RangeError
                else Inl OutsideModel))"

subsection \<open>Property writes\<close>

text \<open>
  An array index is the canonical numeral of a number below \<open>2\<^sup>3\<^sup>2 - 1 = 4294967295\<close>:
  digits without a leading zero.
\<close>

definition index_of_key :: "string \<Rightarrow> nat option" where
  "index_of_key k =
     (if k = [] \<or> \<not> list_all (is_digit 10) k \<or> (hd k = CHR ''0'' \<and> tl k \<noteq> []) then None
      else if digits_value 10 0 k < 4294967295 then Some (digits_value 10 0 k)
      else None)"

text \<open>\<open>arr[i] = x\<close>: beyond the end the array grows, with holes up to \<open>i\<close>.\<close>

definition write_index :: "jsval list \<Rightarrow> nat \<Rightarrow> jsval \<Rightarrow> jsval list" where
  "write_index xs i x =
     (if i < length xs then xs[i := x] else xs @ replicate (i - length xs) JUndef @ [x])"

text \<open>\<open>arr.length = n\<close> cuts the array or lengthens it with holes.\<close>

definition resize :: "jsval list \<Rightarrow> nat \<Rightarrow> jsval list" where
  "resize xs n = take n xs @ replicate (n - length xs) JUndef"

text \<open>
  \<open>obj['__proto__'] = x\<close> calls the setter of \<open>Object.prototype\<close> unless the object has
  an own property of that name: the setter changes the prototype, which is not
  modelled, or does nothing, and adds no property. Every other name is written as an
  own property.
\<close>

definition write_named :: "string \<Rightarrow> jsval \<Rightarrow> (string \<times> jsval) list \<Rightarrow> (string \<times> jsval) list" where
  "write_named k x ps =
     (if k = ''__proto__'' \<and> k \<notin> set (map fst ps) then ps else AList.update k x ps)"

text \<open>An array with the elements \<open>xs\<close> and the named properties \<open>ps\<close>.\<close>

definition array_of :: "jsval list \<Rightarrow> (string \<times> jsval) list \<Rightarrow> jsval" where
  "array_of xs ps = (if ps = [] then JArr xs else JArrP xs ps)"

definition array_set :: "jsval list \<Rightarrow> (string \<times> jsval) list \<Rightarrow> string \<Rightarrow> jsval \<Rightarrow> error + jsval" where
  "array_set xs ps k x =
     (case index_of_key k of
        Some i \<Rightarrow> Inr (array_of (write_index xs i x) ps)
      | None \<Rightarrow>
          if k = ''length''
          then (case array_length x of
                  Inl e \<Rightarrow> Inl e
                | Inr n \<Rightarrow> Inr (array_of (resize xs n) ps))
          else Inr (array_of xs (write_named k x ps)))"

text \<open>
  \<open>v[k] = x\<close> in strict mode (class bodies and modules are strict). The write to a
  primitive throws, except that \<open>__proto__\<close> reaches the setter of \<open>Object.prototype\<close>,
  which returns. \<open>size\<close> of a \<open>Map\<close> is an accessor without a setter.
\<close>

fun set_prop :: "jsval \<Rightarrow> string \<Rightarrow> jsval \<Rightarrow> error + jsval" where
  "set_prop (JObj ps) k x = Inr (JObj (write_named k x ps))"
| "set_prop JUndef k x = Inl TypeError"
| "set_prop JNull k x = Inl TypeError"
| "set_prop (JBool b) k x = (if k = ''__proto__'' then Inr (JBool b) else Inl TypeError)"
| "set_prop (JNum n) k x = (if k = ''__proto__'' then Inr (JNum n) else Inl TypeError)"
| "set_prop (JStr s) k x = (if k = ''__proto__'' then Inr (JStr s) else Inl TypeError)"
| "set_prop (JArr xs) k x = array_set xs [] k x"
| "set_prop (JArrP xs ps) k x = array_set xs ps k x"
| "set_prop (JMap es) k x =
     (if k = ''size'' then Inl TypeError
      else if k = ''__proto__'' then Inr (JMap es)
      else Inr (JMapP es [(k, x)]))"
| "set_prop (JMapP es ps) k x =
     (if k = ''size'' then Inl TypeError else Inr (JMapP es (write_named k x ps)))"

text \<open>\<open>v.k1.k2...\<close> and \<open>v.k1.k2... = x\<close>; the write rebuilds the objects on the way.\<close>

fun get_path :: "jsval \<Rightarrow> string list \<Rightarrow> error + jsval" where
  "get_path v [] = Inr v"
| "get_path v (k # ks) = ebind (get_prop v k) (\<lambda>c. get_path c ks)"

fun set_path :: "jsval \<Rightarrow> string list \<Rightarrow> jsval \<Rightarrow> error + jsval" where
  "set_path v [] x = Inr x"
| "set_path v [k] x = set_prop v k x"
| "set_path v (k # k' # ks) x =
     ebind (get_prop v k) (\<lambda>c. ebind (set_path c (k' # ks) x) (\<lambda>c'. set_prop v k c'))"

text \<open>
  \<open>v.push(x)\<close>: only an array has the method, and an own property \<open>push\<close> of the array
  hides it.
\<close>

fun js_push :: "jsval \<Rightarrow> jsval \<Rightarrow> error + jsval" where
  "js_push (JArr xs) x = Inr (JArr (xs @ [x]))"
| "js_push (JArrP xs ps) x =
     (if ''push'' \<in> set (map fst ps) then Inl TypeError else Inr (JArrP (xs @ [x]) ps))"
| "js_push v x = Inl TypeError"

text \<open>
  The own enumerable properties a spread copies: none for \<open>undefined\<close>, \<open>null\<close>,
  a boolean, a number or a \<open>Map\<close> without named properties; the indices of a string or
  an array are not modelled.
\<close>

fun own_props :: "jsval \<Rightarrow> error + (string \<times> jsval) list" where
  "own_props (JObj ps) = Inr ps"
| "own_props (JMapP es ps) = Inr ps"
| "own_props (JStr s) = Inl OutsideModel"
| "own_props (JArr xs) = Inl OutsideModel"
| "own_props (JArrP xs ps) = Inl OutsideModel"
| "own_props v = Inr []"

definition obj_assign :: "(string \<times> jsval) list \<Rightarrow> (string \<times> jsval) list \<Rightarrow> (string \<times> jsval) list" where
  "obj_assign ps qs = fold (\<lambda>(k, v). AList.update k v) qs ps"

text \<open>\<open>{ ...a, ...b }\<close>\<close>

definition js_spread :: "jsval \<Rightarrow> jsval \<Rightarrow> error + jsval" where
  "js_spread a b =
     ebind (own_props a) (\<lambda>pa. ebind (own_props b) (\<lambda>pb.
       Inr (JObj (obj_assign (obj_assign [] pa) pb))))"

text \<open>A number where the program does arithmetic; other operands would be coerced.\<close>

fun as_num :: "jsval \<Rightarrow> error + real" where
  "as_num (JNum n) = Inr n"
| "as_num v = Inl OutsideModel"

section \<open>SessionManager\<close>

text \<open>
  The module-level maps \<open>sessions\<close> and \<open>sessionExpiry\<close>. Every function takes the
  reading of \<open>Date.now()\<close> for its call as \<open>now\<close> and the manager's \<open>expiryMs\<close>
  where it uses it; \<open>createSession\<close> takes the identifier \<open>uuidv4()\<close> returned.
\<close>

record store =
  sessions :: "string \<rightharpoonup> jsval"
  sessionExpiry :: "string \<rightharpoonup> real"

definition DEFAULT_EXPIRY_MS :: real where
  "DEFAULT_EXPIRY_MS = 7 * 24 * 60 * 60 * 1000"

definition createSession ::
  "real \<Rightarrow> real \<Rightarrow> string \<Rightarrow> store \<Rightarrow> string \<Rightarrow> string \<Rightarrow> string \<Rightarrow> string \<Rightarrow> jsval \<Rightarrow> store \<times> jsval" where
  "createSession expiryMs now sessionId st storyId playerId channel initialNode personas =
     (let session = JObj [
        (''id'', JStr sessionId),
        (''storyId'', JStr storyId),
        (''playerId'', JStr playerId),
        (''channel'', JStr channel),
        (''state'', JObj [
          (''currentNode'', JStr initialNode),
          (''storyPath'', JArr [JStr initialNode]),
          (''choices'', JArr []),
          (''variables'', JObj []),
          (''emotionalTone'', JObj [
            (''primary'', JStr ''neutral''),
            (''intensity'', JNum 0.5),
            (''transitions'', JArr [])]),
          (''pacing'', JStr ''moderate''),
          (''tensionLevel'', JNum 0),
          (''lastActionAt'', JNum now)]),
        (''context'', JObj [
          (''worldState'', JObj [
            (''timeOfDay'', JStr ''day''),
            (''location'', JStr ''unknown''),
            (''activeCharacters'', JArr []),
            (''recentEvents'', JArr []),
            (''environmentalFactors'', JObj [])]),
          (''characterStates'', JMap []),
          (''plotProgression'', JNum 0),
          (''activeThreads'', JArr []),
          (''completedMilestones'', JArr []),
          (''foreshadowing'', JArr []),
          (''playerPreferences'', JObj [
            (''preferredGenres'', JArr []),
            (''matureContentAllowed'', JBool False),
            (''violenceLevel'', JStr ''none''),
            (''romanceLevel'', JStr ''none''),
            (''pacingPreference'', JStr ''moderate''),
            (''voiceSpeed'', JNum 1.0),
            (''voiceStyle'', JStr ''natural'')])]),
        (''personas'', personas),
        (''createdAt'', JNum now),
        (''updatedAt'', JNum now),
        (''metadata'', JObj [
          (''totalPlaytime'', JNum 0),
          (''sessionCount'', JNum 1),
          (''savePoints'', JArr []),
          (''achievements'', JArr []),
          (''customFlags'', JObj [])])]
      in (st\<lparr>sessions := (sessions st)(sessionId \<mapsto> session),
              sessionExpiry := (sessionExpiry st)(sessionId \<mapsto> now + expiryMs)\<rparr>,
          session))"

definition deleteSession :: "store \<Rightarrow> string \<Rightarrow> store \<times> bool" where
  "deleteSession st sessionId =
     (st\<lparr>sessions := (sessions st)(sessionId := None),
          sessionExpiry := (sessionExpiry st)(sessionId := None)\<rparr>,
      sessions st sessionId \<noteq> None)"

text \<open>
  \<open>getSession\<close>: \<open>None\<close> is the \<open>null\<close> returned. The expiry test \<open>expiry && Date.now() > expiry\<close>
  passes over a missing entry and over the number \<open>0\<close>, which are falsy.
\<close>

definition getSession :: "real \<Rightarrow> store \<Rightarrow> string \<Rightarrow> store \<times> jsval option" where
  "getSession now st sessionId =
     (case sessions st sessionId of
        None \<Rightarrow> (st, None)
      | Some session \<Rightarrow>
          if \<not> truthy session then (st, None)
          else (case sessionExpiry st sessionId of
                  None \<Rightarrow> (st, Some session)
                | Some expiry \<Rightarrow>
                    if expiry \<noteq> 0 \<and> now > expiry
                    then (fst (deleteSession st sessionId), None)
                    else (st, Some session)))"

definition put_session :: "store \<Rightarrow> string \<Rightarrow> jsval \<Rightarrow> store" where
  "put_session st sessionId session = st\<lparr>sessions := (sessions st)(sessionId \<mapsto> session)\<rparr>"

text \<open>
  \<open>updateState\<close>. The comparison that guards the push reads \<open>session.state.currentNode\<close>
  after \<open>session.state\<close> has been replaced by the merged object. \<open>!==\<close> compares
  primitives by value and objects by identity; both operands are the one value the
  spread copied, so equality of the values decides it here.
\<close>

definition updateState :: "real \<Rightarrow> store \<Rightarrow> string \<Rightarrow> jsval \<Rightarrow> error + store \<times> jsval" where
  "updateState now st sessionId updates =
     (case getSession now st sessionId of
        (st1, None) \<Rightarrow> Inr (st1, JNull)
      | (st1, Some session) \<Rightarrow>
          ebind (get_prop session ''state'') (\<lambda>state0.
          ebind (js_spread state0 updates) (\<lambda>merged.
          ebind (set_prop session ''state'' merged) (\<lambda>session1.
          ebind (set_path session1 [''state'', ''lastActionAt''] (JNum now)) (\<lambda>session2.
          ebind (set_prop session2 ''updatedAt'' (JNum now)) (\<lambda>session3.
          ebind (get_prop updates ''currentNode'') (\<lambda>uc.
          ebind (get_path session3 [''state'', ''currentNode'']) (\<lambda>sc.
          ebind (if truthy uc \<and> uc \<noteq> sc
                 then ebind (get_path session3 [''state'', ''storyPath'']) (\<lambda>p.
                      ebind (js_push p uc) (\<lambda>p'.
                        set_path session3 [''state'', ''storyPath''] p'))
                 else Inr session3) (\<lambda>session4.
            Inr (put_session st1 sessionId session4, session4))))))))))"

definition setEmotionalTone :: "real \<Rightarrow> store \<Rightarrow> string \<Rightarrow> jsval \<Rightarrow> error + store" where
  "setEmotionalTone now st sessionId tone =
     (case getSession now st sessionId of
        (st1, None) \<Rightarrow> Inr st1
      | (st1, Some session) \<Rightarrow>
          ebind (set_path session [''state'', ''emotionalTone''] tone) (\<lambda>session1.
          ebind (set_prop session1 ''updatedAt'' (JNum now)) (\<lambda>session2.
            Inr (put_session st1 sessionId session2))))"

definition setVariable :: "real \<Rightarrow> store \<Rightarrow> string \<Rightarrow> string \<Rightarrow> jsval \<Rightarrow> error + store" where
  "setVariable now st sessionId key val =
     (case getSession now st sessionId of
        (st1, None) \<Rightarrow> Inr st1
      | (st1, Some session) \<Rightarrow>
          ebind (set_path session [''state'', ''variables'', key] val) (\<lambda>session1.
          ebind (set_prop session1 ''updatedAt'' (JNum now)) (\<lambda>session2.
            Inr (put_session st1 sessionId session2))))"


definition setChoices :: "real \<Rightarrow> store \<Rightarrow> string \<Rightarrow> jsval \<Rightarrow> error + store" where
  "setChoices now st sessionId choices =
     (case getSession now st sessionId of
        (st1, None) \<Rightarrow> Inr st1
      | (st1, Some session) \<Rightarrow>
          ebind (set_path session [''state'', ''choices''] choices) (\<lambda>session1.
          ebind (set_prop session1 ''updatedAt'' (JNum now)) (\<lambda>session2.
            Inr (put_session st1 sessionId session2))))"

text \<open>\<open>target.split('.')\<close>\<close>

fun split_on :: "char \<Rightarrow> string \<Rightarrow> string list" where
  "split_on c [] = [[]]"
| "split_on c (x # xs) =
     (if x = c then [] # split_on c xs
      else (case split_on c xs of [] \<Rightarrow> [[x]] | w # ws \<Rightarrow> (x # w) # ws))"

text \<open>\<open>typeof v === 'object'\<close>\<close>

fun typeof_object :: "jsval \<Rightarrow> bool" where
  "typeof_object JNull = True"
| "typeof_object (JArr xs) = True"
| "typeof_object (JObj ps) = True"
| "typeof_object (JMap ps) = True"
| "typeof_object (JArrP xs ps) = True"
| "typeof_object (JMapP es ps) = True"
| "typeof_object v = False"

text \<open>A string used as a property name; another value would be converted to one.\<close>

fun as_key :: "jsval \<Rightarrow> error + string" where
  "as_key (JStr s) = Inr s"
| "as_key v = Inl OutsideModel"

text \<open>The receiver of \<open>target.split\<close>: only a string has the method.\<close>

fun as_string_receiver :: "jsval \<Rightarrow> error + string" where
  "as_string_receiver (JStr s) = Inr s"
| "as_string_receiver v = Inl TypeError"

definition applyStateChange :: "jsval \<Rightarrow> jsval \<Rightarrow> jsval \<Rightarrow> error + jsval" where
  "applyStateChange session target val =
     ebind (as_string_receiver target) (\<lambda>t.
       let parts = split_on CHR ''.'' t in
       if length parts = 1 then set_path session [''state'', t] val
       else if parts ! 0 = ''context'' then
         (let contextKey = parts ! 1;
              nestedKey = (if 2 < length parts then JStr (parts ! 2) else JUndef)
          in if truthy nestedKey
             then ebind (get_path session [''context'', contextKey]) (\<lambda>c.
                    if typeof_object c
                    then set_path session [''context'', contextKey, parts ! 2] val
                    else Inr session)
             else Inr session)
       else Inr session)"

definition applyConsequence :: "jsval \<Rightarrow> jsval \<Rightarrow> error + jsval" where
  "applyConsequence session consequence =
     ebind (get_prop consequence ''type'') (\<lambda>ty.
       if ty = JStr ''variable'' then
         ebind (get_prop consequence ''target'') (\<lambda>target.
         ebind (get_prop consequence ''value'') (\<lambda>val.
         ebind (as_key target) (\<lambda>k.
           set_path session [''state'', ''variables'', k] val)))
       else if ty = JStr ''state'' then
         ebind (get_prop consequence ''target'') (\<lambda>target.
         ebind (get_prop consequence ''value'') (\<lambda>val.
           applyStateChange session target val))
       else if ty = JStr ''branch'' then
         ebind (get_path session [''state'', ''storyPath'']) (\<lambda>p.
         ebind (get_prop consequence ''target'') (\<lambda>target.
         ebind (js_push p target) (\<lambda>p'.
           set_path session [''state'', ''storyPath''] p')))
       else if ty = JStr ''event'' then
         ebind (get_path session [''context'', ''activeThreads'']) (\<lambda>a.
         ebind (get_prop consequence ''target'') (\<lambda>target.
         ebind (js_push a target) (\<lambda>a'.
           set_path session [''context'', ''activeThreads''] a')))
       else Inr session)"

fun applyConsequenceList :: "jsval \<Rightarrow> jsval list \<Rightarrow> error + jsval" where
  "applyConsequenceList session [] = Inr session"
| "applyConsequenceList session (c # cs) =
     ebind (applyConsequence session c) (\<lambda>session'. applyConsequenceList session' cs)"

text \<open>
  \<open>applyConsequences\<close>: \<open>for (const consequence of choice.consequences)\<close> needs an
  iterable; the iteration of a string or a \<open>Map\<close> is not modelled.
\<close>

definition applyConsequences :: "jsval \<Rightarrow> jsval \<Rightarrow> error + jsval" where
  "applyConsequences session choice =
     ebind (get_prop choice ''consequences'') (\<lambda>cs.
       if \<not> truthy cs then Inr session
       else (case cs of
               JArr xs \<Rightarrow> applyConsequenceList session xs
             | JArrP xs ps \<Rightarrow> applyConsequenceList session xs
             | JStr s \<Rightarrow> Inl OutsideModel
             | JMap m \<Rightarrow> Inl OutsideModel
             | JMapP m ps \<Rightarrow> Inl OutsideModel
             | _ \<Rightarrow> Inl TypeError))"

text \<open>\<open>choices.find(c => c.id === choiceId)\<close>; \<open>JUndef\<close> when no element matches.\<close>

fun find_choice :: "jsval list \<Rightarrow> string \<Rightarrow> error + jsval" where
  "find_choice [] choiceId = Inr JUndef"
| "find_choice (c # cs) choiceId =
     ebind (get_prop c ''id'') (\<lambda>i. if i = JStr choiceId then Inr c else find_choice cs choiceId)"

fun js_find_choice :: "jsval \<Rightarrow> string \<Rightarrow> error + jsval" where
  "js_find_choice (JArr cs) choiceId = find_choice cs choiceId"
| "js_find_choice (JArrP cs ps) choiceId =
     (if ''find'' \<in> set (map fst ps) then Inl TypeError else find_choice cs choiceId)"
| "js_find_choice v choiceId = Inl TypeError"

text \<open>
  \<open>makeChoice\<close> returns the store and the pair \<open>(session, nextNode)\<close>; the null pair is
  \<open>(JNull, JNull)\<close>. When an exception is thrown, the session object may already have
  been written to; the model gives the exception only.
\<close>

definition makeChoice :: "real \<Rightarrow> store \<Rightarrow> string \<Rightarrow> string \<Rightarrow> error + store \<times> jsval \<times> jsval" where
  "makeChoice now st sessionId choiceId =
     (case getSession now st sessionId of
        (st1, None) \<Rightarrow> Inr (st1, JNull, JNull)
      | (st1, Some session) \<Rightarrow>
          ebind (get_path session [''state'', ''choices'']) (\<lambda>choices.
          ebind (js_find_choice choices choiceId) (\<lambda>choice.
            if \<not> truthy choice then Inr (st1, JNull, JNull)
            else
              ebind (applyConsequences session choice) (\<lambda>s1.
              ebind (get_prop choice ''targetNode'') (\<lambda>targetNode.
              ebind (set_path s1 [''state'', ''currentNode''] targetNode) (\<lambda>s2.
              ebind (get_path s2 [''state'', ''storyPath'']) (\<lambda>p.
              ebind (js_push p targetNode) (\<lambda>p'.
              ebind (set_path s2 [''state'', ''storyPath''] p') (\<lambda>s3.
              ebind (set_path s3 [''state'', ''choices''] (JArr [])) (\<lambda>s4.
              ebind (get_prop choice ''emotionalImpact'') (\<lambda>impact.
              ebind (if truthy impact
                     then ebind (get_prop impact ''primary'') (\<lambda>pr.
                          ebind (set_path s4 [''state'', ''emotionalTone'', ''primary''] pr) (\<lambda>s5.
                          ebind (get_prop impact ''intensity'') (\<lambda>it.
                            set_path s5 [''state'', ''emotionalTone'', ''intensity''] it)))
                     else Inr s4) (\<lambda>s6.
              ebind (set_prop s6 ''updatedAt'' (JNum now)) (\<lambda>s7.
                Inr (put_session st1 sessionId s7, s7, targetNode))))))))))))))"


text \<open>
  \<open>JSON.parse(JSON.stringify(v))\<close> for a value that is not \<open>undefined\<close>: a property
  holding \<open>undefined\<close> is left out, an array element \<open>undefined\<close> becomes \<open>null\<close>, a
  \<open>Map\<close> has no own enumerable property and is written \<open>{}\<close>. A JSON text is
  represented by the value it denotes.
\<close>

fun json_of :: "jsval \<Rightarrow> jsval" where
  "json_of (JArr xs) = JArr (map (\<lambda>x. if x = JUndef then JNull else json_of x) xs)"
| "json_of (JObj ps) = JObj (map (\<lambda>p. (fst p, json_of (snd p))) (filter (\<lambda>p. snd p \<noteq> JUndef) ps))"
| "json_of (JMap ps) = JObj []"
| "json_of (JArrP xs ps) = JArr (map (\<lambda>x. if x = JUndef then JNull else json_of x) xs)"
| "json_of (JMapP es ps) = JObj (map (\<lambda>p. (fst p, json_of (snd p))) (filter (\<lambda>p. snd p \<noteq> JUndef) ps))"
| "json_of v = v"

datatype json_text = Malformed | Text jsval

text \<open>\<open>Object.fromEntries\<close> of a \<open>Map\<close>, \<open>Object.entries\<close> of an object and \<open>new Map(entries)\<close>.\<close>

fun fromEntries :: "jsval \<Rightarrow> error + jsval" where
  "fromEntries (JMap es) = Inr (JObj (obj_assign [] es))"
| "fromEntries (JMapP es ps) = Inr (JObj (obj_assign [] es))"
| "fromEntries (JArrP xs ps) = Inl OutsideModel"
| "fromEntries (JArr xs) = Inl OutsideModel"
| "fromEntries (JStr s) = Inl OutsideModel"
| "fromEntries v = Inl TypeError"

fun entries :: "jsval \<Rightarrow> error + (string \<times> jsval) list" where
  "entries (JObj ps) = Inr ps"
| "entries JUndef = Inl TypeError"
| "entries JNull = Inl TypeError"
| "entries (JStr s) = Inl OutsideModel"
| "entries (JArr xs) = Inl OutsideModel"
| "entries (JArrP xs ps) = Inl OutsideModel"
| "entries (JMapP es ps) = Inr ps"
| "entries v = Inr []"

definition new_Map :: "(string \<times> jsval) list \<Rightarrow> jsval" where
  "new_Map es = JMap (obj_assign [] es)"

definition exportSession :: "real \<Rightarrow> store \<Rightarrow> string \<Rightarrow> error + store \<times> json_text option" where
  "exportSession now st sessionId =
     (case getSession now st sessionId of
        (st1, None) \<Rightarrow> Inr (st1, None)
      | (st1, Some session) \<Rightarrow>
          ebind (js_spread session (JObj [])) (\<lambda>e0.
          ebind (get_prop session ''context'') (\<lambda>ctx.
          ebind (js_spread ctx (JObj [])) (\<lambda>c0.
          ebind (get_path session [''context'', ''characterStates'']) (\<lambda>cs.
          ebind (fromEntries cs) (\<lambda>flat.
          ebind (set_prop c0 ''characterStates'' flat) (\<lambda>c1.
          ebind (set_prop e0 ''context'' c1) (\<lambda>exportData.
            Inr (st1, Some (Text (json_of exportData)))))))))))"

text \<open>
  \<open>importSession\<close>: the \<open>catch\<close> turns every exception of the body into \<open>null\<close>. The
  stores are keyed by strings; an \<open>id\<close> of another type is outside the model.
\<close>

definition importSession :: "real \<Rightarrow> real \<Rightarrow> store \<Rightarrow> json_text \<Rightarrow> error + store \<times> jsval" where
  "importSession expiryMs now st data =
     (case data of
        Malformed \<Rightarrow> Inr (st, JNull)
      | Text parsed \<Rightarrow>
          (case ebind (get_path parsed [''context'', ''characterStates'']) (\<lambda>cs.
                ebind (entries cs) (\<lambda>es.
                ebind (set_path parsed [''context'', ''characterStates''] (new_Map es)) (\<lambda>parsed1.
                ebind (get_prop parsed1 ''id'') (\<lambda>i.
                ebind (as_key i) (\<lambda>sid.
                  Inr (st\<lparr>sessions := (sessions st)(sid \<mapsto> parsed1),
                          sessionExpiry := (sessionExpiry st)(sid \<mapsto> now + expiryMs)\<rparr>,
                       parsed1)))))) of
             Inl OutsideModel \<Rightarrow> Inl OutsideModel
           | Inl e \<Rightarrow> Inr (st, JNull)
           | Inr r \<Rightarrow> Inr r))"



section \<open>NarrativeEngine.triggerEvent\<close>

text \<open>\<open>parameters?.k\<close>\<close>

definition opt_prop :: "jsval \<Rightarrow> string \<Rightarrow> error + jsval" where
  "opt_prop v k = (if v = JUndef \<or> v = JNull then Inr JUndef else get_prop v k)"

definition triggerEvent :: "real \<Rightarrow> store \<Rightarrow> string \<Rightarrow> string \<Rightarrow> jsval \<Rightarrow> error + store" where
  "triggerEvent now st sessionId eventType parameters =
     (case getSession now st sessionId of
        (st1, None) \<Rightarrow> Inr st1
      | (st1, Some session) \<Rightarrow>
          if eventType = ''increase_tension'' then
            ebind (get_path session [''state'', ''tensionLevel'']) (\<lambda>t.
            ebind (as_num t) (\<lambda>n.
            ebind (updateState now st1 sessionId
                     (JObj [(''tensionLevel'', JNum (min 100 (n + 20)))])) (\<lambda>r.
              Inr (fst r))))
          else if eventType = ''decrease_tension'' then
            ebind (get_path session [''state'', ''tensionLevel'']) (\<lambda>t.
            ebind (as_num t) (\<lambda>n.
            ebind (updateState now st1 sessionId
                     (JObj [(''tensionLevel'', JNum (max 0 (n - 20)))])) (\<lambda>r.
              Inr (fst r))))
          else if eventType = ''set_emotion'' then
            ebind (opt_prop parameters ''emotion'') (\<lambda>e.
              if truthy e
              then ebind (get_prop parameters ''intensity'') (\<lambda>i.
                     setEmotionalTone now st1 sessionId
                       (JObj [(''primary'', e),
                              (''intensity'', js_or i (JNum 0.5)),
                              (''transitions'', JArr [])]))
              else Inr st1)
          else if eventType = ''add_variable'' then
            ebind (opt_prop parameters ''key'') (\<lambda>k.
              if truthy k
              then ebind (opt_prop parameters ''value'') (\<lambda>v.
                     if v \<noteq> JUndef
                     then ebind (as_key k) (\<lambda>key. setVariable now st1 sessionId key v)
                     else Inr st1)
              else Inr st1)
          else if eventType = ''unlock_achievement'' then
            ebind (opt_prop parameters ''achievement'') (\<lambda>a. Inr st1)
          else Inr st1)"

text \<open>A sequence of events, each with the clock reading of its call.\<close>

fun triggerEvents :: "store \<Rightarrow> string \<Rightarrow> (real \<times> string) list \<Rightarrow> error + store" where
  "triggerEvents st sessionId [] = Inr st"
| "triggerEvents st sessionId (e # es) =
     ebind (triggerEvent (fst e) st sessionId (snd e) JUndef) (\<lambda>st'. triggerEvents st' sessionId es)"

section \<open>Traces of calls on the store\<close>

text \<open>
  The calls on the session store that are modelled, run in sequence from the empty
  store, each with the clock reading of its call. \<open>creates\<close> holds of the calls that
  enter a session under an identifier: \<open>createSession\<close> and \<open>importSession\<close>.
\<close>

text \<open>The body of the sweep that \<open>cleanupLoop\<close> runs every minute.\<close>

definition cleanup :: "real \<Rightarrow> store \<Rightarrow> store" where
  "cleanup now st =
     \<lparr>sessions = (\<lambda>i. case sessionExpiry st i of
                        None \<Rightarrow> sessions st i
                      | Some expiry \<Rightarrow> if now > expiry then None else sessions st i),
      sessionExpiry = (\<lambda>i. case sessionExpiry st i of
                        None \<Rightarrow> None
                      | Some expiry \<Rightarrow> if now > expiry then None else Some expiry)\<rparr>"

datatype call =
    CreateSession string string string string string jsval
  | GetSession string
  | UpdateState string jsval
  | SetChoices string jsval
  | MakeChoice string string
  | SetEmotionalTone string jsval
  | SetVariable string string jsval
  | DeleteSession string
  | ExportSession string
  | ImportSession json_text
  | TriggerEvent string string jsval
  | Sweep

fun exec :: "real \<Rightarrow> real \<Rightarrow> store \<Rightarrow> call \<Rightarrow> error + store" where
  "exec expiryMs now st (CreateSession sessionId storyId playerId channel initialNode personas) =
     Inr (fst (createSession expiryMs now sessionId st storyId playerId channel initialNode personas))"
| "exec expiryMs now st (GetSession sessionId) = Inr (fst (getSession now st sessionId))"
| "exec expiryMs now st (UpdateState sessionId updates) =
     ebind (updateState now st sessionId updates) (\<lambda>r. Inr (fst r))"
| "exec expiryMs now st (SetChoices sessionId choices) = setChoices now st sessionId choices"
| "exec expiryMs now st (MakeChoice sessionId choiceId) =
     ebind (makeChoice now st sessionId choiceId) (\<lambda>r. Inr (fst r))"
| "exec expiryMs now st (SetEmotionalTone sessionId tone) = setEmotionalTone now st sessionId tone"
| "exec expiryMs now st (SetVariable sessionId key val) = setVariable now st sessionId key val"
| "exec expiryMs now st (DeleteSession sessionId) = Inr (fst (deleteSession st sessionId))"
| "exec expiryMs now st (ExportSession sessionId) =
     ebind (exportSession now st sessionId) (\<lambda>r. Inr (fst r))"
| "exec expiryMs now st (ImportSession data) =
     ebind (importSession expiryMs now st data) (\<lambda>r. Inr (fst r))"
| "exec expiryMs now st (TriggerEvent sessionId eventType parameters) =
     triggerEvent now st sessionId eventType parameters"
| "exec expiryMs now st Sweep = Inr (cleanup now st)"

fun run :: "real \<Rightarrow> store \<Rightarrow> (real \<times> call) list \<Rightarrow> error + store" where
  "run expiryMs st [] = Inr st"
| "run expiryMs st (e # es) = ebind (exec expiryMs (fst e) st (snd e)) (\<lambda>st'. run expiryMs st' es)"



definition frame :: "store \<Rightarrow> store \<Rightarrow> bool" where
  "frame st st' \<longleftrightarrow>
     (\<forall>i. sessions st' i \<noteq> None \<longrightarrow> sessions st i \<noteq> None \<and> sessionExpiry st' i = sessionExpiry st i)"


section \<open>ModelManager\<close>

text \<open>
  Model descriptors and the manager's state. Capabilities, providers, request types and
  strategies are the strings they are at run time. \<open>models\<close> is a \<open>Map\<close> whose values
  are read in insertion order (\<open>Array.from(this.models.values())\<close>), hence a list of
  entries; the other maps are read by key only. The fields \<open>id\<close> and \<open>name\<close> of the
  source are \<open>model_id\<close> and \<open>model_name\<close> here.
\<close>

record ModelConfig =
  model_id :: string
  model_name :: string
  provider :: string
  endpoint :: "string option"
  capabilities :: "string list"
  contextWindow :: real
  maxOutput :: real
  quality :: real
  speed :: real
  censorshipLevel :: real
  costPerToken :: real
  rateLimitRpm :: real

record ModelRotationConfig =
  primaryModel :: string
  fallbackModels :: "string list"
  rotationStrategy :: string
  healthCheckInterval :: real
  failureThreshold :: real

record ModelFallbackChain =
  requestType :: string
  chain :: "string list"
  currentIndex :: real

record Health =
  healthy :: bool
  lastCheck :: real
  latency :: real

record ModelManager =
  models :: "(string \<times> ModelConfig) list"
  rotationConfig :: ModelRotationConfig
  fallbackChains :: "string \<rightharpoonup> ModelFallbackChain"
  healthStatus :: "string \<rightharpoonup> Health"
  usageCount :: "string \<rightharpoonup> real"

definition DEFAULT_MODELS :: "ModelConfig list" where
  "DEFAULT_MODELS = [
    \<lparr>model_id = ''llama-3.2-90b'', model_name = ''Llama 3.2 90B'', provider = ''fireworks'',
      endpoint = Some ''https://api.fireworks.ai/inference/v1'',
      capabilities = [''text'', ''creative'', ''uncensored'', ''reasoning''],
      contextWindow = 131072, maxOutput = 8192, quality = 10, speed = 7,
      censorshipLevel = 0, costPerToken = 0.0001, rateLimitRpm = 60\<rparr>,
    \<lparr>model_id = ''llama-3.1-70b'', model_name = ''Llama 3.1 70B'', provider = ''fireworks'',
      endpoint = Some ''https://api.fireworks.ai/inference/v1'',
      capabilities = [''text'', ''creative'', ''uncensored'', ''reasoning''],
      contextWindow = 131072, maxOutput = 8192, quality = 9, speed = 8,
      censorshipLevel = 0, costPerToken = 0.00008, rateLimitRpm = 60\<rparr>,
    \<lparr>model_id = ''llama-3.2-3b'', model_name = ''Llama 3.2 3B'', provider = ''ollama'',
      endpoint = Some ''http://localhost:11434'',
      capabilities = [''text'', ''creative'', ''uncensored''],
      contextWindow = 8192, maxOutput = 4096, quality = 7, speed = 10,
      censorshipLevel = 0, costPerToken = 0, rateLimitRpm = 9999\<rparr>,
    \<lparr>model_id = ''mistral-7b'', model_name = ''Mistral 7B'', provider = ''ollama'',
      endpoint = Some ''http://localhost:11434'',
      capabilities = [''text'', ''creative'', ''uncensored'', ''coding''],
      contextWindow = 32768, maxOutput = 4096, quality = 8, speed = 9,
      censorshipLevel = 0, costPerToken = 0, rateLimitRpm = 9999\<rparr>,
    \<lparr>model_id = ''mistral-22b'', model_name = ''Mistral 22B'', provider = ''fireworks'',
      endpoint = Some ''https://api.fireworks.ai/inference/v1'',
      capabilities = [''text'', ''creative'', ''uncensored'', ''reasoning''],
      contextWindow = 65536, maxOutput = 8192, quality = 10, speed = 6,
      censorshipLevel = 0, costPerToken = 0.00015, rateLimitRpm = 40\<rparr>,
    \<lparr>model_id = ''codellama-34b'', model_name = ''CodeLlama 34B'', provider = ''ollama'',
      endpoint = Some ''http://localhost:11434'',
      capabilities = [''text'', ''coding'', ''uncensored'', ''reasoning''],
      contextWindow = 16384, maxOutput = 8192, quality = 9, speed = 7,
      censorshipLevel = 0, costPerToken = 0, rateLimitRpm = 9999\<rparr>,
    \<lparr>model_id = ''phi-3.5-mini'', model_name = ''Phi-3.5 Mini'', provider = ''ollama'',
      endpoint = Some ''http://localhost:11434'',
      capabilities = [''text'', ''reasoning'', ''coding'', ''uncensored''],
      contextWindow = 131072, maxOutput = 4096, quality = 8, speed = 10,
      censorshipLevel = 0, costPerToken = 0, rateLimitRpm = 9999\<rparr>,
    \<lparr>model_id = ''gemma-2-27b'', model_name = ''Gemma 2 27B'', provider = ''fireworks'',
      endpoint = Some ''https://api.fireworks.ai/inference/v1'',
      capabilities = [''text'', ''creative'', ''uncensored'', ''reasoning''],
      contextWindow = 8192, maxOutput = 4096, quality = 9, speed = 8,
      censorshipLevel = 0, costPerToken = 0.00005, rateLimitRpm = 80\<rparr>,
    \<lparr>model_id = ''deepseek-coder-33b'', model_name = ''DeepSeek Coder 33B'', provider = ''ollama'',
      endpoint = Some ''http://localhost:11434'',
      capabilities = [''text'', ''coding'', ''creative'', ''uncensored''],
      contextWindow = 16384, maxOutput = 8192, quality = 9, speed = 7,
      censorshipLevel = 0, costPerToken = 0, rateLimitRpm = 9999\<rparr>,
    \<lparr>model_id = ''dolphin-mixtral-8x7b'', model_name = ''Dolphin Mixtral 8x7B'', provider = ''ollama'',
      endpoint = Some ''http://localhost:11434'',
      capabilities = [''text'', ''creative'', ''uncensored'', ''reasoning''],
      contextWindow = 32768, maxOutput = 8192, quality = 9, speed = 6,
      censorshipLevel = 0, costPerToken = 0, rateLimitRpm = 9999\<rparr>,
    \<lparr>model_id = ''wizard-vicuna-13b'', model_name = ''Wizard Vicuna 13B'', provider = ''ollama'',
      endpoint = Some ''http://localhost:11434'',
      capabilities = [''text'', ''creative'', ''uncensored'', ''reasoning''],
      contextWindow = 16384, maxOutput = 4096, quality = 8, speed = 8,
      censorshipLevel = 0, costPerToken = 0, rateLimitRpm = 9999\<rparr>,
    \<lparr>model_id = ''nous-hermes-2-mixtral'', model_name = ''Nous Hermes 2 Mixtral'', provider = ''ollama'',
      endpoint = Some ''http://localhost:11434'',
      capabilities = [''text'', ''creative'', ''uncensored'', ''reasoning''],
      contextWindow = 32768, maxOutput = 8192, quality = 9, speed = 7,
      censorshipLevel = 0, costPerToken = 0, rateLimitRpm = 9999\<rparr>]"

definition DEFAULT_ROTATION_CONFIG :: ModelRotationConfig where
  "DEFAULT_ROTATION_CONFIG =
     \<lparr>primaryModel = ''llama-3.2-90b'',
      fallbackModels = [''llama-3.1-70b'', ''mistral-22b'', ''gemma-2-27b''],
      rotationStrategy = ''quality_based'',
      healthCheckInterval = 30000,
      failureThreshold = 3\<rparr>"

definition registerModel :: "real \<Rightarrow> ModelConfig \<Rightarrow> ModelManager \<Rightarrow> ModelManager" where
  "registerModel now model mgr =
     mgr\<lparr>models := AList.update (model_id model) model (models mgr),
         healthStatus := (healthStatus mgr)(model_id model \<mapsto>
                           \<lparr>healthy = True, lastCheck = now, latency = 0\<rparr>)\<rparr>"

text \<open>
  The constructor with the rotation configuration it ends up with (the defaults
  overridden by its argument); \<open>startHealthChecks\<close> only schedules \<open>performHealthChecks\<close>.
\<close>

definition new_ModelManager :: "real \<Rightarrow> ModelRotationConfig \<Rightarrow> ModelManager" where
  "new_ModelManager now config =
     fold (registerModel now) DEFAULT_MODELS
       \<lparr>models = [], rotationConfig = config, fallbackChains = Map.empty,
        healthStatus = Map.empty, usageCount = Map.empty\<rparr>"

definition getModel :: "ModelManager \<Rightarrow> string \<Rightarrow> ModelConfig option" where
  "getModel mgr modelId = map_of (models mgr) modelId"

text \<open>
  \<open>Array.prototype.sort\<close> with a comparator is stable: the result is the list in
  the order of the comparator, entries that compare equal keeping their order. The
  insertion sort below computes it.
\<close>

fun insert_by :: "('a \<Rightarrow> 'a \<Rightarrow> real) \<Rightarrow> 'a \<Rightarrow> 'a list \<Rightarrow> 'a list" where
  "insert_by cmp x [] = [x]"
| "insert_by cmp x (y # ys) = (if cmp x y \<le> 0 then x # y # ys else y # insert_by cmp x ys)"

definition sort_by :: "('a \<Rightarrow> 'a \<Rightarrow> real) \<Rightarrow> 'a list \<Rightarrow> 'a list" where
  "sort_by cmp xs = foldr (insert_by cmp) xs []"

text \<open>The comparator of \<open>getModelsByCapability\<close> and of the last resort: uncensored first, then by quality.\<close>

definition uncensored_then_quality :: "ModelConfig \<Rightarrow> ModelConfig \<Rightarrow> real" where
  "uncensored_then_quality a b =
     (let aUncensored = (if censorshipLevel a = 0 then 1 else 0 :: real);
          bUncensored = (if censorshipLevel b = 0 then 1 else 0 :: real)
      in if aUncensored \<noteq> bUncensored then bUncensored - aUncensored
         else quality b - quality a)"

text \<open>
  What \<open>getCapabilityForRequest\<close> returns: a capability, or, for a request type that names
  a property of \<open>Object.prototype\<close>, the function or object the table inherits under that
  name. The inherited value is truthy, so \<open>|| 'text'\<close> does not replace it, and it is
  no element of any model's \<open>capabilities\<close>.
\<close>

datatype capability = Capability string | Inherited string

definition getModelsByCapability :: "ModelManager \<Rightarrow> capability \<Rightarrow> ModelConfig list" where
  "getModelsByCapability mgr cap =
     sort_by uncensored_then_quality
       (filter (\<lambda>m. cap \<in> set (map Capability (capabilities m))) (map snd (models mgr)))"

definition getCapabilityForRequest :: "string \<Rightarrow> capability" where
  "getCapabilityForRequest rt =
     (if rt = ''story_generation'' then Capability ''creative''
      else if rt = ''dialogue'' then Capability ''creative''
      else if rt = ''branching_logic'' then Capability ''reasoning''
      else if rt = ''world_building'' then Capability ''creative''
      else if rt = ''voice_synthesis'' then Capability ''voice''
      else if rt \<in> set object_prototype_keys then Inherited rt
      else Capability ''text'')"

definition buildChainForRequest :: "ModelManager \<Rightarrow> string \<Rightarrow> string list" where
  "buildChainForRequest mgr rt =
     (let capability = getCapabilityForRequest rt;
          ms = getModelsByCapability mgr capability
      in if rt = ''story_generation'' \<or> rt = ''dialogue''
         then map model_id (filter (\<lambda>m. censorshipLevel m = 0) ms)
         else map model_id ms)"

definition getFallbackChain :: "ModelManager \<Rightarrow> string \<Rightarrow> ModelManager \<times> ModelFallbackChain" where
  "getFallbackChain mgr rt =
     (case fallbackChains mgr rt of
        Some c \<Rightarrow> (mgr, c)
      | None \<Rightarrow>
          (let c = \<lparr>requestType = rt, chain = buildChainForRequest mgr rt, currentIndex = 0\<rparr>
           in (mgr\<lparr>fallbackChains := (fallbackChains mgr)(rt \<mapsto> c)\<rparr>, c)))"

text \<open>\<open>this.healthStatus.get(id)?.healthy\<close>\<close>

definition is_healthy :: "ModelManager \<Rightarrow> string \<Rightarrow> bool" where
  "is_healthy mgr modelId = (case healthStatus mgr modelId of None \<Rightarrow> False | Some h \<Rightarrow> healthy h)"

text \<open>The first loop of \<open>getBestModel\<close>: the first healthy uncensored model of the chain.\<close>

fun first_healthy_uncensored :: "ModelManager \<Rightarrow> string list \<Rightarrow> ModelConfig option" where
  "first_healthy_uncensored mgr [] = None"
| "first_healthy_uncensored mgr (modelId # rest) =
     (case map_of (models mgr) modelId of
        Some model \<Rightarrow>
          if is_healthy mgr modelId \<and> censorshipLevel model = 0 then Some model
          else first_healthy_uncensored mgr rest
      | None \<Rightarrow> first_healthy_uncensored mgr rest)"

text \<open>\<open>xs[0] || null\<close> for a list of objects\<close>

definition first_or_null :: "'a list \<Rightarrow> 'a option" where
  "first_or_null xs = (case xs of [] \<Rightarrow> None | x # rest \<Rightarrow> Some x)"

definition getBestModel :: "ModelManager \<Rightarrow> string \<Rightarrow> ModelManager \<times> ModelConfig option" where
  "getBestModel mgr rt =
     (let (mgr1, c) = getFallbackChain mgr rt in
      if length (chain c) = 0 then (mgr1, None)
      else (case first_healthy_uncensored mgr1 (chain c) of
              Some model \<Rightarrow> (mgr1, Some model)
            | None \<Rightarrow>
                (let capability = getCapabilityForRequest rt;
                     capableModels = filter (\<lambda>m. is_healthy mgr1 (model_id m))
                                       (getModelsByCapability mgr1 capability)
                 in if length capableModels > 0 then (mgr1, Some (hd capableModels))
                    else
                      (let healthyModels =
                             sort_by uncensored_then_quality
                               (filter (\<lambda>m. is_healthy mgr1 (model_id m)) (map snd (models mgr1)))
                       in (mgr1, first_or_null healthyModels)))))"

text \<open>
  The loop of \<open>getRotatedModel\<close>, with \<open>bestModel\<close> and \<open>minUsage\<close> as accumulators
  (\<open>None\<close> for \<open>null\<close> and for \<open>Infinity\<close>). \<open>select_by\<close> is the \<open>switch\<close> on the
  strategy for one healthy model, \<open>round_robin\<close> apart, which returns from inside the loop.
\<close>

definition select_by ::
  "string \<Rightarrow> ModelConfig \<Rightarrow> real \<Rightarrow> ModelConfig option \<Rightarrow> real option \<Rightarrow> ModelConfig option \<times> real option" where
  "select_by strategy model usage bestModel minUsage =
     (if strategy = ''quality_based'' then
        (if (case bestModel of None \<Rightarrow> True | Some b \<Rightarrow> quality model > quality b)
         then (Some model, minUsage) else (bestModel, minUsage))
      else if strategy = ''speed_based'' then
        (if (case bestModel of None \<Rightarrow> True | Some b \<Rightarrow> speed model > speed b)
         then (Some model, minUsage) else (bestModel, minUsage))
      else if strategy = ''availability'' then
        (if (case minUsage of None \<Rightarrow> True | Some u \<Rightarrow> usage < u)
         then (Some model, Some usage) else (bestModel, minUsage))
      else (bestModel, minUsage))"

fun rotate :: "ModelManager \<Rightarrow> string \<Rightarrow> string list \<Rightarrow> ModelConfig option \<Rightarrow> real option \<Rightarrow> ModelConfig option" where
  "rotate mgr strategy [] bestModel minUsage = bestModel"
| "rotate mgr strategy (modelId # rest) bestModel minUsage =
     (case map_of (models mgr) modelId of
        None \<Rightarrow> rotate mgr strategy rest bestModel minUsage
      | Some model \<Rightarrow>
          if \<not> is_healthy mgr modelId then rotate mgr strategy rest bestModel minUsage
          else if strategy = ''round_robin'' then Some model
          else
            (let usage = (case usageCount mgr modelId of None \<Rightarrow> 0 | Some n \<Rightarrow> n);
                 r = select_by strategy model usage bestModel minUsage
             in rotate mgr strategy rest (fst r) (snd r)))"

definition getRotatedModel :: "ModelManager \<Rightarrow> string \<Rightarrow> ModelManager \<times> ModelConfig option" where
  "getRotatedModel mgr rt =
     (let (mgr1, c) = getFallbackChain mgr rt
      in (mgr1, rotate mgr1 (rotationStrategy (rotationConfig mgr1)) (chain c) None None))"

definition recordUsage :: "string \<Rightarrow> ModelManager \<Rightarrow> ModelManager" where
  "recordUsage modelId mgr =
     mgr\<lparr>usageCount := (usageCount mgr)(modelId \<mapsto>
            (case usageCount mgr modelId of None \<Rightarrow> 0 | Some n \<Rightarrow> n) + 1)\<rparr>"

text \<open>
  \<open>reportFailure\<close>: \<open>indexOf\<close> and \<open>splice\<close> remove the first occurrence of the
  identifier from every cached chain.
\<close>

definition reportFailure :: "real \<Rightarrow> string \<Rightarrow> ModelManager \<Rightarrow> ModelManager" where
  "reportFailure now modelId mgr =
     mgr\<lparr>healthStatus :=
           (case healthStatus mgr modelId of
              None \<Rightarrow> healthStatus mgr
            | Some h \<Rightarrow> (healthStatus mgr)(modelId \<mapsto> h\<lparr>healthy := False, lastCheck := now\<rparr>)),
         fallbackChains :=
           (\<lambda>rt. map_option (\<lambda>c. c\<lparr>chain := remove1 modelId (chain c)\<rparr>) (fallbackChains mgr rt))\<rparr>"

definition reportSuccess :: "real \<Rightarrow> string \<Rightarrow> real \<Rightarrow> ModelManager \<Rightarrow> ModelManager" where
  "reportSuccess now modelId lat mgr =
     recordUsage modelId
       (mgr\<lparr>healthStatus := (healthStatus mgr)(modelId \<mapsto>
               \<lparr>healthy = True, lastCheck = now, latency = lat\<rparr>)\<rparr>)"

text \<open>\<open>setModelHealth\<close>: \<open>latency || 0\<close> with the optional argument.\<close>

definition setModelHealth :: "real \<Rightarrow> string \<Rightarrow> bool \<Rightarrow> real option \<Rightarrow> ModelManager \<Rightarrow> ModelManager" where
  "setModelHealth now modelId h lat mgr =
     mgr\<lparr>healthStatus := (healthStatus mgr)(modelId \<mapsto>
           \<lparr>healthy = h, lastCheck = now, latency = (case lat of None \<Rightarrow> 0 | Some l \<Rightarrow> l)\<rparr>)\<rparr>"

text \<open>
  \<open>performHealthChecks\<close>: \<open>checkModelHealth\<close> answers \<open>true\<close> for every model and does not
  throw; \<open>elapsed\<close> gives the latency measured for each model.
\<close>

definition performHealthChecks :: "real \<Rightarrow> (string \<Rightarrow> real) \<Rightarrow> ModelManager \<Rightarrow> ModelManager" where
  "performHealthChecks now elapsed mgr =
     fold (\<lambda>p. setModelHealth now (fst p) True (Some (elapsed (fst p)))) (models mgr) mgr"

definition updateRotationConfig :: "ModelRotationConfig \<Rightarrow> ModelManager \<Rightarrow> ModelManager" where
  "updateRotationConfig merged mgr = mgr\<lparr>rotationConfig := merged\<rparr>"

definition getHealthyModels :: "ModelManager \<Rightarrow> ModelConfig list" where
  "getHealthyModels mgr = filter (\<lambda>m. is_healthy mgr (model_id m)) (map snd (models mgr))"

text \<open>The public calls on a manager, in sequence, each with the clock reading of its call.\<close>

datatype model_call =
    RegisterModel ModelConfig
  | GetBestModel string
  | GetRotatedModel string
  | RecordUsage string
  | ReportFailure string
  | ReportSuccess string real
  | SetModelHealth string bool "real option"
  | PerformHealthChecks "string \<Rightarrow> real"
  | UpdateRotationConfig ModelRotationConfig

fun model_exec :: "real \<Rightarrow> ModelManager \<Rightarrow> model_call \<Rightarrow> ModelManager" where
  "model_exec now mgr (RegisterModel m) = registerModel now m mgr"
| "model_exec now mgr (GetBestModel rt) = fst (getBestModel mgr rt)"
| "model_exec now mgr (GetRotatedModel rt) = fst (getRotatedModel mgr rt)"
| "model_exec now mgr (RecordUsage modelId) = recordUsage modelId mgr"
| "model_exec now mgr (ReportFailure modelId) = reportFailure now modelId mgr"
| "model_exec now mgr (ReportSuccess modelId lat) = reportSuccess now modelId lat mgr"
| "model_exec now mgr (SetModelHealth modelId h lat) = setModelHealth now modelId h lat mgr"
| "model_exec now mgr (PerformHealthChecks elapsed) = performHealthChecks now elapsed mgr"
| "model_exec now mgr (UpdateRotationConfig merged) = updateRotationConfig merged mgr"

definition model_run :: "ModelManager \<Rightarrow> (real \<times> model_call) list \<Rightarrow> ModelManager" where
  "model_run mgr calls = fold (\<lambda>e m. model_exec (fst e) m (snd e)) calls mgr"

text \<open>
  Auxiliary predicates on a manager: every entry of \<open>models\<close> is keyed by the
  identifier of its descriptor and no key is repeated (the entries of a \<open>Map\<close>); no
  cached chain repeats an identifier; and, between two states, every cached chain is
  still cached and has lost identifiers at most.
\<close>

definition keys_are_ids :: "ModelManager \<Rightarrow> bool" where
  "keys_are_ids mgr \<longleftrightarrow> distinct (map fst (models mgr)) \<and> (\<forall>p\<in>set (models mgr). model_id (snd p) = fst p)"

definition chains_distinct :: "ModelManager \<Rightarrow> bool" where
  "chains_distinct mgr \<longleftrightarrow> (\<forall>rt c. fallbackChains mgr rt = Some c \<longrightarrow> distinct (chain c))"

definition shrinks :: "ModelManager \<Rightarrow> ModelManager \<Rightarrow> bool" where
  "shrinks a b \<longleftrightarrow>
     (\<forall>rt c. fallbackChains a rt = Some c \<longrightarrow>
        (\<exists>c'. fallbackChains b rt = Some c' \<and> set (chain c') \<subseteq> set (chain c)))"

definition good :: "ModelManager \<Rightarrow> bool" where
  "good mgr \<longleftrightarrow> keys_are_ids mgr \<and> chains_distinct mgr"

section \<open>Personas and the emotion modulator\<close>

text \<open>The types of types.ts. The fields \<open>id\<close>, \<open>provider\<close>, \<open>model\<close> and \<open>speed\<close> of a
  VoiceProfile are \<open>profile_id\<close>, \<open>voice_provider\<close>, \<open>voice_model\<close> and \<open>voice_speed\<close> here,
  the optional \<open>accent\<close> is an option. The comments of the type give the ranges: pitch -12 to
  12, speed 0.5 to 2.0, warmth, assertiveness and breathiness 0 to 1.\<close>

record VoiceProfile =
  profile_id :: string
  voice_provider :: string
  voice_model :: string
  voiceId :: string
  accent :: "string option"
  pitch :: real
  voice_speed :: real
  emotion :: string
  warmth :: real
  assertiveness :: real
  breathiness :: real

record PersonalityTraits =
  openness :: real
  conscientiousness :: real
  extraversion :: real
  agreeableness :: real
  neuroticism :: real
  customTraits :: "(string \<times> real) list"

record SpeechPattern =
  triggers :: "string list"
  patterns :: "string list"
  replacement :: string
  probability :: real

record PersonaRelationship =
  withPersonaId :: string
  relation_type :: string
  strength :: real
  dynamic :: string

record Persona =
  persona_id :: string
  persona_name :: string
  role :: string
  voiceProfile :: VoiceProfile
  personality :: PersonalityTraits
  backstory :: string
  speechPatterns :: "SpeechPattern list"
  emotionalRange :: "string list"
  relationships :: "PersonaRelationship list"
  uncensored :: bool
  appearance :: jsval

text \<open>persona.ts, EmotionModulator. The persona is held by value; \<open>emotionHistory\<close> is the array
  of the class, oldest entry first.\<close>

record EmotionRecord =
  record_emotion :: string
  timestamp :: real
  intensity :: real

record EmotionModulator =
  modulator_persona :: "Persona option"
  storyContext :: jsval
  currentEmotion :: string
  emotionHistory :: "EmotionRecord list"

text \<open>\<open>new EmotionModulator(persona, storyContext)\<close>: \<open>storyContext || {}\<close>.\<close>

definition new_EmotionModulator :: "Persona option \<Rightarrow> jsval \<Rightarrow> EmotionModulator" where
  "new_EmotionModulator p ctx =
     \<lparr>modulator_persona = p, storyContext = js_or ctx (JObj []),
      currentEmotion = ''neutral'', emotionHistory = []\<rparr>"

text \<open>The table of \<open>getEmotionModifiers\<close>: an entry is a \<open>Record<string, number>\<close>, kept as the
  list of its properties. No entry has a \<open>breathiness\<close> property.\<close>

definition modifier_entry :: "real \<Rightarrow> real \<Rightarrow> real \<Rightarrow> real \<Rightarrow> real \<Rightarrow> (string \<times> real) list" where
  "modifier_entry p s w a i =
     [(''pitch'', p), (''speed'', s), (''warmth'', w), (''assertiveness'', a), (''intensity'', i)]"

definition modifiers :: "(string \<times> (string \<times> real) list) list" where
  "modifiers =
     [(''happy'', modifier_entry 2 1.05 0.3 (-0.1) 0.6),
      (''sad'', modifier_entry (-3) 0.9 0.2 (-0.2) 0.5),
      (''angry'', modifier_entry 3 1.1 (-0.3) 0.3 0.8),
      (''fearful'', modifier_entry 4 1.2 0.1 (-0.3) 0.7),
      (''surprised'', modifier_entry 5 1.15 0.0 0.0 0.6),
      (''disgusted'', modifier_entry (-2) 0.95 (-0.2) 0.1 0.5),
      (''neutral'', modifier_entry 0 1.0 0.0 0.0 0.3),
      (''loving'', modifier_entry 1 0.95 0.4 (-0.1) 0.6),
      (''passionate'', modifier_entry 2 1.05 0.3 0.2 0.7),
      (''mysterious'', modifier_entry (-1) 0.9 (-0.1) 0.1 0.4),
      (''cold'', modifier_entry (-2) 0.95 (-0.4) 0.2 0.5),
      (''fierce'', modifier_entry 4 1.1 (-0.2) 0.4 0.8),
      (''gentle'', modifier_entry 0 0.9 0.3 (-0.2) 0.4),
      (''wise'', modifier_entry (-1) 0.95 0.2 0.1 0.4),
      (''playful'', modifier_entry 3 1.1 0.3 (-0.1) 0.5)]"

text \<open>
  \<open>modifiers[emotion] || modifiers.neutral\<close>. For a label that names a property of
  \<open>Object.prototype\<close> the lookup gives the inherited function or object, which is truthy
  and has none of the properties \<open>modulateVoice\<close> reads: the empty list.
\<close>

definition getEmotionModifiers :: "string \<Rightarrow> (string \<times> real) list" where
  "getEmotionModifiers e =
     (case map_of modifiers e of
        Some m \<Rightarrow> m
      | None \<Rightarrow> if e \<in> set object_prototype_keys then []
                else the (map_of modifiers ''neutral''))"

text \<open>\<open>m.k || d\<close> on a record of numbers: a missing property and 0 both give \<open>d\<close>.\<close>

definition modifier_or :: "(string \<times> real) list \<Rightarrow> string \<Rightarrow> real \<Rightarrow> real" where
  "modifier_or m k d = (case map_of m k of Some x \<Rightarrow> (if x = 0 then d else x) | None \<Rightarrow> d)"

text \<open>\<open>modulateVoice(targetEmotion)\<close> at clock reading \<open>now\<close>: the modulator after the call and
  the profile returned.\<close>

definition modulateVoice :: "real \<Rightarrow> string \<Rightarrow> EmotionModulator \<Rightarrow> EmotionModulator \<times> VoiceProfile" where
  "modulateVoice now targetEmotion m =
     (case modulator_persona m of
        None \<Rightarrow>
          (m, \<lparr>profile_id = ''default'', voice_provider = ''elevenlabs'',
               voice_model = ''elien_multilingual_v2'', voiceId = ''default'', accent = None,
               pitch = 0, voice_speed = 1.0, emotion = targetEmotion,
               warmth = 0.5, assertiveness = 0.5, breathiness = 0.2\<rparr>)
      | Some p \<Rightarrow>
          let baseVoice = voiceProfile p;
              emotionModifiers = getEmotionModifiers targetEmotion;
              modulatedVoice = baseVoice
                \<lparr>pitch := pitch baseVoice + modifier_or emotionModifiers ''pitch'' 0,
                 voice_speed := voice_speed baseVoice * modifier_or emotionModifiers ''speed'' 1,
                 warmth := max 0 (min 1 (warmth baseVoice + modifier_or emotionModifiers ''warmth'' 0)),
                 assertiveness :=
                   max 0 (min 1 (assertiveness baseVoice + modifier_or emotionModifiers ''assertiveness'' 0)),
                 breathiness :=
                   max 0 (min 1 (breathiness baseVoice + modifier_or emotionModifiers ''breathiness'' 0)),
                 emotion := targetEmotion\<rparr>;
              history = emotionHistory m @
                [\<lparr>record_emotion = targetEmotion, timestamp = now,
                  intensity = modifier_or emotionModifiers ''intensity'' 0.5\<rparr>]
          in (m\<lparr>currentEmotion := targetEmotion,
                emotionHistory := (if 20 < length history then tl history else history)\<rparr>,
              modulatedVoice))"

section \<open>PersonaManager\<close>

text \<open>Strings are lists of bytes; the letters \<open>toLowerCase\<close> and a regular expression with the
  flag \<open>i\<close> fold are the ASCII letters.\<close>

definition lower_char :: "char \<Rightarrow> char" where
  "lower_char c =
     (case map_of (zip ''ABCDEFGHIJKLMNOPQRSTUVWXYZ'' ''abcdefghijklmnopqrstuvwxyz'') c of
        Some d \<Rightarrow> d
      | None \<Rightarrow> c)"

definition toLowerCase :: "string \<Rightarrow> string" where
  "toLowerCase s = map lower_char s"

fun starts_with :: "string \<Rightarrow> string \<Rightarrow> bool" where
  "starts_with s [] = True"
| "starts_with [] (p # ps) = False"
| "starts_with (c # cs) (p # ps) = (c = p \<and> starts_with cs ps)"

text \<open>\<open>s.js_includes(t)\<close>.\<close>

fun js_includes :: "string \<Rightarrow> string \<Rightarrow> bool" where
  "js_includes [] t = (t = [])"
| "js_includes (c # cs) t = (starts_with (c # cs) t \<or> js_includes cs t)"

definition starts_with_ci :: "string \<Rightarrow> string \<Rightarrow> bool" where
  "starts_with_ci s p = starts_with (toLowerCase s) (toLowerCase p)"

text \<open>\<open>s.replace(/p/i, r)\<close> for a non-empty literal \<open>p\<close> and a replacement without \<open>$\<close>: the
  first match from the left is replaced.\<close>

fun replace_first_ci :: "string \<Rightarrow> string \<Rightarrow> string \<Rightarrow> string" where
  "replace_first_ci p r [] = []"
| "replace_first_ci p r (c # cs) =
     (if starts_with_ci (c # cs) p then r @ drop (length p) (c # cs)
      else c # replace_first_ci p r cs)"

text \<open>\<open>s.replace(/p/gi, r)\<close>: every match from the left, the search going on after the match;
  the counter is the number of characters of the last match still to skip.\<close>

fun replace_all_from :: "string \<Rightarrow> string \<Rightarrow> nat \<Rightarrow> string \<Rightarrow> string" where
  "replace_all_from p r k [] = []"
| "replace_all_from p r (Suc k) (c # cs) = replace_all_from p r k cs"
| "replace_all_from p r 0 (c # cs) =
     (if starts_with_ci (c # cs) p then r @ replace_all_from p r (length p - 1) cs
      else c # replace_all_from p r 0 cs)"

definition replace_all_ci :: "string \<Rightarrow> string \<Rightarrow> string \<Rightarrow> string" where
  "replace_all_ci p r s = replace_all_from p r 0 s"

text \<open>\<open>s.replace(/\./g, r)\<close>.\<close>

definition replace_dots :: "string \<Rightarrow> string \<Rightarrow> string" where
  "replace_dots r s = concat (map (\<lambda>c. if c = CHR ''.'' then r else [c]) s)"

text \<open>persona.ts, the three maps of the PersonaManager. The EmotionModulator of a persona holds
  the persona it was made with, by value.\<close>

record PersonaManager =
  personas :: "string \<rightharpoonup> Persona"
  voiceProfiles :: "string \<rightharpoonup> VoiceProfile"
  emotionModulation :: "string \<rightharpoonup> EmotionModulator"

text \<open>A \<open>Partial<Persona>\<close> is the list of the properties it has.\<close>

datatype persona_update =
    SetId string
  | SetName string
  | SetRole string
  | SetVoiceProfile VoiceProfile
  | SetPersonality PersonalityTraits
  | SetBackstory string
  | SetSpeechPatterns "SpeechPattern list"
  | SetEmotionalRange "string list"
  | SetRelationships "PersonaRelationship list"
  | SetUncensored bool
  | SetAppearance jsval

fun assign_persona :: "persona_update \<Rightarrow> Persona \<Rightarrow> Persona" where
  "assign_persona (SetId x) p = p\<lparr>persona_id := x\<rparr>"
| "assign_persona (SetName x) p = p\<lparr>persona_name := x\<rparr>"
| "assign_persona (SetRole x) p = p\<lparr>role := x\<rparr>"
| "assign_persona (SetVoiceProfile x) p = p\<lparr>voiceProfile := x\<rparr>"
| "assign_persona (SetPersonality x) p = p\<lparr>personality := x\<rparr>"
| "assign_persona (SetBackstory x) p = p\<lparr>backstory := x\<rparr>"
| "assign_persona (SetSpeechPatterns x) p = p\<lparr>speechPatterns := x\<rparr>"
| "assign_persona (SetEmotionalRange x) p = p\<lparr>emotionalRange := x\<rparr>"
| "assign_persona (SetRelationships x) p = p\<lparr>relationships := x\<rparr>"
| "assign_persona (SetUncensored x) p = p\<lparr>uncensored := x\<rparr>"
| "assign_persona (SetAppearance x) p = p\<lparr>appearance := x\<rparr>"

text \<open>\<open>updatePersona(personaId, updates)\<close>: \<open>{...persona, ...updates}\<close> replaces the entry.\<close>

definition updatePersona :: "string \<Rightarrow> persona_update list \<Rightarrow> PersonaManager \<Rightarrow> PersonaManager \<times> Persona option" where
  "updatePersona personaId updates pm =
     (case personas pm personaId of
        None \<Rightarrow> (pm, None)
      | Some persona \<Rightarrow>
          let updated = fold assign_persona updates persona
          in (pm\<lparr>personas := (personas pm)(personaId \<mapsto> updated)\<rparr>, Some updated))"

definition createEmotionModulator :: "string \<Rightarrow> jsval \<Rightarrow> PersonaManager \<Rightarrow> PersonaManager \<times> EmotionModulator" where
  "createEmotionModulator personaId ctx pm =
     (let modulator = new_EmotionModulator (personas pm personaId) ctx
      in (pm\<lparr>emotionModulation := (emotionModulation pm)(personaId \<mapsto> modulator)\<rparr>, modulator))"

text \<open>The loop of \<open>generateDialogue\<close> over the speech patterns. \<open>Math.random()\<close> is the sequence
  \<open>rnd\<close>, of which \<open>n\<close> values are drawn already; a pattern whose trigger occurs draws one.\<close>

fun applySpeechPatterns :: "(nat \<Rightarrow> real) \<Rightarrow> SpeechPattern list \<Rightarrow> string \<times> nat \<Rightarrow> string \<times> nat" where
  "applySpeechPatterns rnd [] (text, n) = (text, n)"
| "applySpeechPatterns rnd (pattern # ps) (text, n) =
     (if list_ex (\<lambda>t. js_includes (toLowerCase text) t) (triggers pattern)
      then (if rnd n < probability pattern
            then applySpeechPatterns rnd ps (replacement pattern, Suc n)
            else applySpeechPatterns rnd ps (text, Suc n))
      else applySpeechPatterns rnd ps (text, n))"

definition applyPersonality :: "string \<Rightarrow> Persona \<Rightarrow> string" where
  "applyPersonality text persona =
     (let traits = personality persona;
          t1 = (if 0.8 < openness traits then replace_all_ci ''simple'' ''complex and nuanced'' text
                else text);
          brave = (case map_of (customTraits traits) ''brave'' of Some x \<Rightarrow> x \<noteq> 0 | None \<Rightarrow> False);
          t2 = (if brave \<or> 0.7 < extraversion traits
                then replace_first_ci ''I think'' ''I know'' (replace_first_ci ''maybe'' ''definitely'' t1)
                else t1)
      in fold (\<lambda>(trait, v) t. if 0.8 < v \<and> trait = ''cunning''
                               then replace_dots '', and perhaps...'' t else t)
              (customTraits traits) t2)"

text \<open>\<open>generateDialogue(personaId, context, targetEmotion, storyContext)\<close>: the manager and the
  count of draws after the call, the text and the voice parameters.\<close>

definition generateDialogue ::
  "real \<Rightarrow> (nat \<Rightarrow> real) \<Rightarrow> PersonaManager \<times> nat \<Rightarrow> string \<Rightarrow> string \<Rightarrow> string \<Rightarrow> jsval
   \<Rightarrow> error + (PersonaManager \<times> nat) \<times> string \<times> VoiceProfile" where
  "generateDialogue now rnd pmn personaId context_text targetEmotion ctx =
     (case personas (fst pmn) personaId of
        None \<Rightarrow> Inl (PersonaNotFound personaId)
      | Some persona \<Rightarrow>
          let (pm1, modulator) =
                (case emotionModulation (fst pmn) personaId of
                   Some m \<Rightarrow> (fst pmn, m)
                 | None \<Rightarrow> createEmotionModulator personaId ctx (fst pmn));
              (modulator', voiceParams) = modulateVoice now targetEmotion modulator;
              pm2 = pm1\<lparr>emotionModulation := (emotionModulation pm1)(personaId \<mapsto> modulator')\<rparr>;
              (text, n) = applySpeechPatterns rnd (speechPatterns persona) (context_text, snd pmn)
          in Inr ((pm2, n), applyPersonality text persona, voiceParams))"

section \<open>NarrativeEngine.renderNode\<close>

text \<open>engine.ts. A node; its \<open>id\<close> and \<open>type\<close> are \<open>node_id\<close> and \<open>node_type\<close>, an absent
  optional property is \<open>None\<close> or \<open>undefined\<close>.\<close>

record StoryNode =
  node_id :: string
  node_type :: string
  content :: string
  voiceProfileId :: "string option"
  node_emotionalTone :: string
  node_choices :: "jsval list"
  nextNodes :: "(string \<times> string) list option"
  conditions :: jsval
  node_metadata :: jsval

text \<open>An entry of the engine's cache. Only \<open>renderNode\<close> writes the cache, and it writes the
  rendered string.\<close>

record CacheEntry =
  cache_data :: string
  expiresAt :: real

text \<open>What a call of the engine reads and writes: its cache, the store of the session manager,
  the persona manager, and the number of values drawn from \<open>Math.random()\<close>.\<close>

record world =
  cache :: "string \<rightharpoonup> CacheEntry"
  session_store :: store
  personaManager :: PersonaManager
  drawn :: nat

definition applyPersonaVoice ::
  "real \<Rightarrow> (nat \<Rightarrow> real) \<Rightarrow> world \<Rightarrow> string \<Rightarrow> string \<Rightarrow> string \<Rightarrow> error + world \<times> string" where
  "applyPersonaVoice now rnd w sessionId personaId text =
     (case getSession now (session_store w) sessionId of
        (st1, None) \<Rightarrow> Inr (w\<lparr>session_store := st1\<rparr>, text)
      | (st1, Some session) \<Rightarrow>
          ebind (get_path session [''state'', ''emotionalTone'', ''primary'']) (\<lambda>tone.
          ebind (get_path session [''context'', ''worldState'']) (\<lambda>worldState.
          ebind (as_key tone) (\<lambda>emotionalTone.
          ebind (generateDialogue now rnd (personaManager w, drawn w) personaId text emotionalTone worldState)
            (\<lambda>(pmn, modifiedText, voiceParams).
               Inr (w\<lparr>session_store := st1, personaManager := fst pmn, drawn := snd pmn\<rparr>,
                    modifiedText))))))"

definition renderNode :: "real \<Rightarrow> (nat \<Rightarrow> real) \<Rightarrow> world \<Rightarrow> jsval \<Rightarrow> StoryNode \<Rightarrow> error + world \<times> string" where
  "renderNode now rnd w session node =
     ebind (get_prop session ''storyId'') (\<lambda>storyId.
     ebind (as_key storyId) (\<lambda>sid.
       let cacheKey = sid @ ''_'' @ node_id node;
           fresh = (case cache w cacheKey of Some cached \<Rightarrow> now < expiresAt cached | None \<Rightarrow> False)
       in if fresh then Inr (w, cache_data (the (cache w cacheKey)))
          else
            ebind (opt_prop (node_metadata node) ''speaker'') (\<lambda>speakerId.
            ebind (if truthy speakerId
                   then ebind (get_prop session ''personas'') (\<lambda>ps.
                        ebind (as_key speakerId) (\<lambda>k.
                        ebind (get_prop ps k) (\<lambda>persona.
                          if truthy persona
                          then ebind (get_prop session ''id'') (\<lambda>i.
                               ebind (as_key i) (\<lambda>sessionId.
                                 applyPersonaVoice now rnd w sessionId k (content node)))
                          else Inr (w, content node))))
                   else Inr (w, content node))
              (\<lambda>(w1, text).
                 Inr (w1\<lparr>cache := (cache w1)(cacheKey \<mapsto>
                            \<lparr>cache_data = text, expiresAt = now + 5 * 60 * 1000\<rparr>)\<rparr>,
                      text)))))"

section \<open>Reference functions and example data\<close>

definition spec_tension_step :: "string \<Rightarrow> real \<Rightarrow> real" where
  "spec_tension_step e t = (if e = ''increase_tension'' then min 100 (t + 20) else max 0 (t - 20))"

definition spec_tension_after :: "real \<Rightarrow> string list \<Rightarrow> real" where
  "spec_tension_after t evs = fold spec_tension_step evs t"

definition empty_store :: store where
  "empty_store = \<lparr>sessions = Map.empty, sessionExpiry = Map.empty\<rparr>"

definition example_store :: store where
  "example_store =
     fst (createSession DEFAULT_EXPIRY_MS 1000 ''s1'' empty_store ''mystery_manor'' ''player_1''
            ''text'' ''entrance'' (JObj []))"

definition example_events :: "(real \<times> string) list" where
  "example_events =
     [(2000, ''increase_tension''), (3000, ''increase_tension''), (4000, ''increase_tension''),
      (5000, ''increase_tension''), (6000, ''increase_tension''), (7000, ''increase_tension''),
      (8000, ''decrease_tension'')]"

definition store_of :: "error + store \<Rightarrow> store" where
  "store_of r = (case r of Inl e \<Rightarrow> empty_store | Inr st \<Rightarrow> st)"

text \<open>The choice \<open>enter\<close> of the example story's node \<open>entrance\<close>, offered to the session.\<close>

definition offered_enter :: jsval where
  "offered_enter =
     JArr [JObj [(''id'', JStr ''enter''),
                 (''text'', JStr ''Enter through the front door''),
                 (''targetNode'', JStr ''foyer'')]]"

definition example_offered_store :: store where
  "example_offered_store = store_of (setChoices 1500 example_store ''s1'' offered_enter)"








text \<open>The same choice with a \<open>branch\<close> consequence.\<close>

definition branch_choice :: jsval where
  "branch_choice =
     JArr [JObj [(''id'', JStr ''enter''),
                 (''text'', JStr ''Enter through the front door''),
                 (''targetNode'', JStr ''foyer''),
                 (''consequences'', JArr [JObj [(''type'', JStr ''branch''), (''target'', JStr ''doorstep'')]])]]"

definition example_branch_store :: store where
  "example_branch_store = store_of (setChoices 1500 example_store ''s1'' branch_choice)"

definition stored_path :: "store \<Rightarrow> string \<Rightarrow> jsval option" where
  "stored_path st sessionId =
     (case sessions st sessionId of
        None \<Rightarrow> None
      | Some s \<Rightarrow> (case get_path s [''state'', ''storyPath''] of Inl e \<Rightarrow> None | Inr p \<Rightarrow> Some p))"









text \<open>
  A manager that has served \<open>story_generation\<close> once, and the calls that follow the
  failure report of its best model.
\<close>

definition served_manager :: ModelManager where
  "served_manager =
     model_run (new_ModelManager 0 DEFAULT_ROTATION_CONFIG) [(1, GetBestModel ''story_generation'')]"

definition calls_after_failure :: "(real \<times> model_call) list" where
  "calls_after_failure =
     [(3, ReportSuccess ''llama-3.2-90b'' 120),
      (4, PerformHealthChecks (\<lambda>i. 5)),
      (5, RegisterModel (hd DEFAULT_MODELS)),
      (6, GetBestModel ''story_generation''),
      (7, GetRotatedModel ''story_generation'')]"

text \<open>
  The same manager after the failure report, a success report for the model, and health
  reports that mark the nine other models of the chain unhealthy; the identifiers of a
  cached chain and of a selected model.
\<close>

definition outage_calls :: "(real \<times> model_call) list" where
  "outage_calls =
     [(3, ReportSuccess ''llama-3.2-90b'' 120),
      (4, SetModelHealth ''llama-3.1-70b'' False None),
      (4, SetModelHealth ''llama-3.2-3b'' False None),
      (4, SetModelHealth ''mistral-7b'' False None),
      (4, SetModelHealth ''mistral-22b'' False None),
      (4, SetModelHealth ''gemma-2-27b'' False None),
      (4, SetModelHealth ''deepseek-coder-33b'' False None),
      (4, SetModelHealth ''dolphin-mixtral-8x7b'' False None),
      (4, SetModelHealth ''wizard-vicuna-13b'' False None),
      (4, SetModelHealth ''nous-hermes-2-mixtral'' False None)]"

definition outage_manager :: ModelManager where
  "outage_manager = model_run (reportFailure 2 ''llama-3.2-90b'' served_manager) outage_calls"

definition cached_chain :: "ModelManager \<Rightarrow> string \<Rightarrow> string list option" where
  "cached_chain mgr rt = map_option chain (fallbackChains mgr rt)"

definition selected_id :: "ModelManager \<times> ModelConfig option \<Rightarrow> string option" where
  "selected_id r = map_option model_id (snd r)"

text \<open>The ranges the comments of the VoiceProfile type give.\<close>

definition in_range :: "VoiceProfile \<Rightarrow> bool" where
  "in_range v \<longleftrightarrow>
     -12 \<le> pitch v \<and> pitch v \<le> 12 \<and> 0.5 \<le> voice_speed v \<and> voice_speed v \<le> 2.0 \<and>
     0 \<le> warmth v \<and> warmth v \<le> 1 \<and> 0 \<le> assertiveness v \<and> assertiveness v \<le> 1 \<and>
     0 \<le> breathiness v \<and> breathiness v \<le> 1"

text \<open>A persona as \<open>createPersona\<close> makes it from an empty template, then
  \<open>updateVoiceProfile(id, {pitch: 10, speed: 1.9})\<close>.\<close>

definition high_voice :: VoiceProfile where
  "high_voice =
     \<lparr>profile_id = ''guide_voice'', voice_provider = ''elevenlabs'',
      voice_model = ''eleven_multilingual_v2'', voiceId = ''v1'', accent = None,
      pitch = 10, voice_speed = 1.9, emotion = ''neutral'',
      warmth = 0.85, assertiveness = 0.3, breathiness = 0.4\<rparr>"

definition plain_personality :: PersonalityTraits where
  "plain_personality =
     \<lparr>openness = 0.5, conscientiousness = 0.5, extraversion = 0.5, agreeableness = 0.5,
      neuroticism = 0.5, customTraits = []\<rparr>"

definition guide :: Persona where
  "guide =
     \<lparr>persona_id = ''guide'', persona_name = ''Guide'', role = ''npc'', voiceProfile = high_voice,
      personality = plain_personality, backstory = '''', speechPatterns = [],
      emotionalRange = [''neutral''], relationships = [], uncensored = False, appearance = JUndef\<rparr>"

text \<open>The object a persona is, as a session keeps it in \<open>personas\<close>.\<close>

definition voice_value :: "VoiceProfile \<Rightarrow> jsval" where
  "voice_value v =
     JObj [(''id'', JStr (profile_id v)), (''provider'', JStr (voice_provider v)),
           (''model'', JStr (voice_model v)), (''voiceId'', JStr (voiceId v)),
           (''accent'', (case accent v of Some a \<Rightarrow> JStr a | None \<Rightarrow> JUndef)),
           (''pitch'', JNum (pitch v)), (''speed'', JNum (voice_speed v)),
           (''emotion'', JStr (emotion v)), (''warmth'', JNum (warmth v)),
           (''assertiveness'', JNum (assertiveness v)), (''breathiness'', JNum (breathiness v))]"

definition personality_value :: "PersonalityTraits \<Rightarrow> jsval" where
  "personality_value t =
     JObj [(''openness'', JNum (openness t)), (''conscientiousness'', JNum (conscientiousness t)),
           (''extraversion'', JNum (extraversion t)), (''agreeableness'', JNum (agreeableness t)),
           (''neuroticism'', JNum (neuroticism t)),
           (''customTraits'', JObj (map (\<lambda>(k, x). (k, JNum x)) (customTraits t)))]"

definition pattern_value :: "SpeechPattern \<Rightarrow> jsval" where
  "pattern_value p =
     JObj [(''triggers'', JArr (map JStr (triggers p))), (''patterns'', JArr (map JStr (patterns p))),
           (''replacement'', JStr (replacement p)), (''probability'', JNum (probability p))]"

definition relationship_value :: "PersonaRelationship \<Rightarrow> jsval" where
  "relationship_value r =
     JObj [(''withPersonaId'', JStr (withPersonaId r)), (''type'', JStr (relation_type r)),
           (''strength'', JNum (strength r)), (''dynamic'', JStr (dynamic r))]"

definition persona_value :: "Persona \<Rightarrow> jsval" where
  "persona_value p =
     JObj [(''id'', JStr (persona_id p)), (''name'', JStr (persona_name p)), (''role'', JStr (role p)),
           (''voiceProfile'', voice_value (voiceProfile p)),
           (''personality'', personality_value (personality p)),
           (''backstory'', JStr (backstory p)),
           (''speechPatterns'', JArr (map pattern_value (speechPatterns p))),
           (''emotionalRange'', JArr (map JStr (emotionalRange p))),
           (''relationships'', JArr (map relationship_value (relationships p))),
           (''uncensored'', JBool (uncensored p)), (''appearance'', appearance p)]"

text \<open>The voice profile \<open>createPersona\<close> gives a persona that is no love interest: the preset
  \<open>warm_feminine\<close>; the voice id is a fresh uuid.\<close>

definition preset_voice :: "string \<Rightarrow> string \<Rightarrow> VoiceProfile" where
  "preset_voice i uuid =
     \<lparr>profile_id = i @ ''_voice'', voice_provider = ''elevenlabs'',
      voice_model = ''eleven_multilingual_v2'', voiceId = uuid, accent = None,
      pitch = 2, voice_speed = 0.95, emotion = ''neutral'',
      warmth = 0.85, assertiveness = 0.3, breathiness = 0.4\<rparr>"

text \<open>The entry \<open>villain\<close> of the persona manager after its constructor has run
  (\<open>DEFAULT_PERSONAS.villain\<close>).\<close>

definition default_villain :: Persona where
  "default_villain =
     \<lparr>persona_id = ''villain'', persona_name = ''Villain'', role = ''villain'',
      voiceProfile = preset_voice ''villain'' ''uuid-1'',
      personality =
        \<lparr>openness = 0.7, conscientiousness = 0.8, extraversion = 0.6, agreeableness = 0.1,
         neuroticism = 0.5,
         customTraits = [(''cunning'', 0.95), (''ruthless'', 0.95), (''ambitious'', 0.85),
                         (''manipulative'', 0.95), (''sinister'', 0.9)]\<rparr>,
      backstory = '''', speechPatterns = [],
      emotionalRange = [''cold'', ''calculating'', ''furious'', ''mocking'', ''threatening'',
                        ''menacing'', ''cruel''],
      relationships = [], uncensored = True, appearance = JUndef\<rparr>"

text \<open>The persona \<open>startSession\<close> makes for a story whose \<open>personas\<close> is
  \<open>{villain: {name: 'The Count'}}\<close>; it is kept in the session only.\<close>

definition story_villain :: Persona where
  "story_villain =
     \<lparr>persona_id = ''villain'', persona_name = ''The Count'', role = ''npc'',
      voiceProfile = preset_voice ''villain'' ''uuid-2'',
      personality = plain_personality,
      backstory = '''', speechPatterns = [], emotionalRange = [''neutral''],
      relationships = [], uncensored = False, appearance = JUndef\<rparr>"

definition villain_store :: store where
  "villain_store =
     fst (createSession DEFAULT_EXPIRY_MS 1000 ''s1'' empty_store ''castle'' ''player_1''
            ''text'' ''courtyard'' (JObj [(''villain'', persona_value story_villain)]))"

definition villain_session :: jsval where
  "villain_session = the (sessions villain_store ''s1'')"

definition hall_node :: StoryNode where
  "hall_node =
     \<lparr>node_id = ''hall'', node_type = ''dialogue'', content = ''A simple plan.'',
      voiceProfileId = None, node_emotionalTone = ''neutral'', node_choices = [],
      nextNodes = None, conditions = JUndef,
      node_metadata = JObj [(''speaker'', JStr ''villain'')]\<rparr>"

definition default_manager :: PersonaManager where
  "default_manager =
     \<lparr>personas = [''villain'' \<mapsto> default_villain], voiceProfiles = Map.empty,
      emotionModulation = Map.empty\<rparr>"

text \<open>The same manager after
  \<open>updatePersona('villain', {personality: {...personality, openness: 0.9}})\<close>.\<close>

definition edited_manager :: PersonaManager where
  "edited_manager =
     fst (updatePersona ''villain''
            [SetPersonality ((personality default_villain)\<lparr>openness := 0.9\<rparr>)] default_manager)"

definition world_with :: "PersonaManager \<Rightarrow> world" where
  "world_with pm =
     \<lparr>cache = Map.empty, session_store = villain_store, personaManager = pm, drawn = 0\<rparr>"

definition rendered :: "error + world \<times> string \<Rightarrow> error + string" where
  "rendered r = map_sum id snd r"

section \<open>Basic lemmas\<close>

lemma ebind_simps [simp]: "ebind (Inl e) f = Inl e" "ebind (Inr x) f = f x"
  by (simp_all add: ebind_def)

lemma ebind_eq_Inr: "ebind m f = Inr y \<longleftrightarrow> (\<exists>x. m = Inr x \<and> f x = Inr y)"
  by (cases m) simp_all

lemma get_prop_defined:
  "get_prop v k = Inr x \<Longrightarrow> x \<noteq> JUndef \<Longrightarrow>
     (\<exists>ps. v = JObj ps \<and> map_of ps k = Some x) \<or> (\<exists>es ps. v = JMapP es ps \<and> map_of ps k = Some x)"
  by (cases v) (auto split: option.splits)

lemma get_path2_defined:
  assumes "get_path s [a, b] = Inr x" "x \<noteq> JUndef"
  shows "\<exists>ps qs c. (s = JObj ps \<or> (\<exists>es. s = JMapP es ps)) \<and> map_of ps a = Some c \<and>
           (c = JObj qs \<or> (\<exists>es. c = JMapP es qs)) \<and> map_of qs b = Some x"
proof -
  from assms(1) obtain c where c: "get_prop s a = Inr c" and x: "get_prop c b = Inr x"
    by (auto simp: ebind_eq_Inr)
  from get_prop_defined [OF x assms(2)] obtain qs where q: "c = JObj qs \<or> (\<exists>es. c = JMapP es qs)" "map_of qs b = Some x"
    by blast
  then have "c \<noteq> JUndef" by auto
  from get_prop_defined [OF c this] obtain ps where "s = JObj ps \<or> (\<exists>es. s = JMapP es ps)" "map_of ps a = Some c"
    by blast
  with q show ?thesis by blast
qed

lemma map_of_fold_update:
  "map_of (fold (\<lambda>(k, v). AList.update k v) qs ps) = map_of ps ++ map_of (rev qs)"
  by (induction qs arbitrary: ps) (auto simp: update_conv' map_add_upd_left fun_eq_iff map_add_def split: option.splits)



lemma write_named_plain [simp]: "k \<noteq> ''__proto__'' \<Longrightarrow> write_named k x ps = AList.update k x ps"
  by (simp add: write_named_def)










lemma map_of_rev_distinct: "distinct (map fst xs) \<Longrightarrow> map_of (rev xs) = map_of xs"
proof (induction xs)
  case Nil
  then show ?case by simp
next
  case (Cons x xs)
  then have "map_of xs (fst x) = None" by (simp add: map_of_eq_None_iff)
  with Cons show ?case
    by (auto simp: fun_eq_iff map_add_def split: option.splits)
qed

section \<open>Tension events (C8)\<close>

lemma triggerEvent_tension_step:
  assumes "sessions st sid = Some s" "get_path s [''state'', ''tensionLevel''] = Inr (JNum t)"
    and "ev = ''increase_tension'' \<or> ev = ''decrease_tension''"
  shows "\<exists>st'. triggerEvent now st sid ev JUndef = Inr st' \<and>
      ((sessions st' sid = None \<and> (\<exists>x. sessionExpiry st sid = Some x \<and> x < now)) \<or>
       (sessionExpiry st' = sessionExpiry st \<and> (\<exists>s'. sessions st' sid = Some s' \<and>
         get_path s' [''state'', ''tensionLevel''] = Inr (JNum (spec_tension_step ev t)))))"
proof -
  from get_path2_defined [OF assms(2)] obtain ps qs c where
    s: "s = JObj ps \<or> (\<exists>es. s = JMapP es ps)" and st: "map_of ps ''state'' = Some c"
    and c: "c = JObj qs \<or> (\<exists>es. c = JMapP es qs)"
    and tl: "map_of qs ''tensionLevel'' = Some (JNum t)" by auto
  have r0: ?thesis if "s = JObj ps" "c = JObj qs"
    using assms(1,3) that st tl
    apply (simp add: triggerEvent_def getSession_def deleteSession_def updateState_def js_spread_def
       put_session_def obj_assign_def map_of_fold_update update_conv' spec_tension_step_def split: option.splits)
    apply (auto simp: update_conv' map_of_fold_update)
    done
  have r1: ?thesis if "s = JObj ps" "c = JMapP es' qs" for es'
    using assms(1,3) that st tl
    apply (simp add: triggerEvent_def getSession_def deleteSession_def updateState_def js_spread_def
       put_session_def obj_assign_def map_of_fold_update update_conv' spec_tension_step_def split: option.splits)
    apply (auto simp: update_conv' map_of_fold_update)
    done
  have r2: ?thesis if "s = JMapP es ps" "c = JObj qs" for es
    using assms(1,3) that st tl
    apply (simp add: triggerEvent_def getSession_def deleteSession_def updateState_def js_spread_def
       put_session_def obj_assign_def map_of_fold_update update_conv' spec_tension_step_def split: option.splits)
    apply (auto simp: update_conv' map_of_fold_update)
    done
  have r3: ?thesis if "s = JMapP es ps" "c = JMapP es' qs" for es es'
    using assms(1,3) that st tl
    apply (simp add: triggerEvent_def getSession_def deleteSession_def updateState_def js_spread_def
       put_session_def obj_assign_def map_of_fold_update update_conv' spec_tension_step_def split: option.splits)
    apply (auto simp: update_conv' map_of_fold_update)
    done
  from s c show ?thesis using r0 r1 r2 r3 by blast
qed

lemma triggerEvents_absent:
  "sessions st sid = None \<Longrightarrow> triggerEvents st sid es = Inr st"
  by (induction es) (simp_all add: triggerEvent_def getSession_def)

lemma triggerEvents_tension:
  assumes "\<forall>e\<in>set es. snd e = ''increase_tension'' \<or> snd e = ''decrease_tension''"
    and "sessions st sid = Some s" "get_path s [''state'', ''tensionLevel''] = Inr (JNum t)"
  shows "\<exists>st'. triggerEvents st sid es = Inr st' \<and>
      (sessions st' sid = None \<or> (\<exists>s'. sessions st' sid = Some s' \<and>
         get_path s' [''state'', ''tensionLevel''] = Inr (JNum (spec_tension_after t (map snd es))))) \<and>
      ((\<exists>x. sessionExpiry st sid = Some x \<and> (\<forall>e\<in>set es. fst e \<le> x)) \<longrightarrow> sessions st' sid \<noteq> None)"
  using assms
proof (induction es arbitrary: st s t)
  case Nil
  then show ?case by (simp add: spec_tension_after_def)
next
  case (Cons e es)
  from Cons.prems(1) have ev: "snd e = ''increase_tension'' \<or> snd e = ''decrease_tension''"
    and rest: "\<forall>e\<in>set es. snd e = ''increase_tension'' \<or> snd e = ''decrease_tension''" by simp_all
  from triggerEvent_tension_step [OF Cons.prems(2,3) ev, of "fst e"]
  obtain st1 where run: "triggerEvent (fst e) st sid (snd e) JUndef = Inr st1"
    and alt: "(sessions st1 sid = None \<and> (\<exists>x. sessionExpiry st sid = Some x \<and> x < fst e)) \<or>
       (sessionExpiry st1 = sessionExpiry st \<and> (\<exists>s'. sessions st1 sid = Some s' \<and>
         get_path s' [''state'', ''tensionLevel''] = Inr (JNum (spec_tension_step (snd e) t))))"
    by blast
  from alt show ?case
  proof
    assume gone: "sessions st1 sid = None \<and> (\<exists>x. sessionExpiry st sid = Some x \<and> x < fst e)"
    then have "triggerEvents st1 sid es = Inr st1" by (simp add: triggerEvents_absent)
    with run gone show ?thesis by auto
  next
    assume live: "sessionExpiry st1 = sessionExpiry st \<and> (\<exists>s'. sessions st1 sid = Some s' \<and>
         get_path s' [''state'', ''tensionLevel''] = Inr (JNum (spec_tension_step (snd e) t)))"
    then obtain s1 where s1: "sessions st1 sid = Some s1"
      "get_path s1 [''state'', ''tensionLevel''] = Inr (JNum (spec_tension_step (snd e) t))" by blast
    from Cons.IH [OF rest s1] obtain st' where
      fin: "triggerEvents st1 sid es = Inr st'"
      and res: "sessions st' sid = None \<or> (\<exists>s'. sessions st' sid = Some s' \<and>
         get_path s' [''state'', ''tensionLevel''] =
           Inr (JNum (spec_tension_after (spec_tension_step (snd e) t) (map snd es))))"
      and keep: "(\<exists>x. sessionExpiry st1 sid = Some x \<and> (\<forall>e\<in>set es. fst e \<le> x)) \<longrightarrow> sessions st' sid \<noteq> None"
      by blast
    from run fin have "triggerEvents st sid (e # es) = Inr st'" by simp
    moreover from res have "sessions st' sid = None \<or> (\<exists>s'. sessions st' sid = Some s' \<and>
         get_path s' [''state'', ''tensionLevel''] = Inr (JNum (spec_tension_after t (map snd (e # es)))))"
      by (simp add: spec_tension_after_def)
    moreover from keep live have "(\<exists>x. sessionExpiry st sid = Some x \<and> (\<forall>e\<in>set (e # es). fst e \<le> x)) \<longrightarrow> sessions st' sid \<noteq> None"
      by auto
    ultimately show ?thesis by blast
  qed
qed

lemma spec_tension_step_bounds: "0 \<le> t \<Longrightarrow> t \<le> 100 \<Longrightarrow> 0 \<le> spec_tension_step e t \<and> spec_tension_step e t \<le> 100"
  by (simp add: spec_tension_step_def)

lemma spec_tension_after_bounds:
  "0 \<le> t \<Longrightarrow> t \<le> 100 \<Longrightarrow> 0 \<le> spec_tension_after t evs \<and> spec_tension_after t evs \<le> 100"
  unfolding spec_tension_after_def
  by (induction evs arbitrary: t) (simp_all add: spec_tension_step_bounds)

text \<open>
  C8. Let the stored session have a tension level \<open>t\<close> in \<open>[0, 100]\<close>. Every sequence of
  \<open>increase_tension\<close> and \<open>decrease_tension\<close> events, whatever the clock readings of
  the calls, runs through \<open>triggerEvent\<close> without an exception; the session that is
  still stored afterwards has the tension level obtained by adding 20 capped at 100
  for each increase and subtracting 20 floored at 0 for each decrease, which lies in
  \<open>[0, 100]\<close>; and the session is still stored when no call came after its expiry time.
\<close>

theorem tension_stays_in_range:
  assumes "sessions st sid = Some s"
    and "get_path s [''state'', ''tensionLevel''] = Inr (JNum t)"
    and "0 \<le> t" and "t \<le> 100"
    and "\<forall>e\<in>set es. snd e = ''increase_tension'' \<or> snd e = ''decrease_tension''"
  shows "\<exists>st'. triggerEvents st sid es = Inr st' \<and>
      (\<forall>s'. sessions st' sid = Some s' \<longrightarrow>
         (\<exists>t'. get_path s' [''state'', ''tensionLevel''] = Inr (JNum t') \<and>
               t' = spec_tension_after t (map snd es) \<and> 0 \<le> t' \<and> t' \<le> 100)) \<and>
      ((\<exists>x. sessionExpiry st sid = Some x \<and> (\<forall>e\<in>set es. fst e \<le> x)) \<longrightarrow> sessions st' sid \<noteq> None)"
  using triggerEvents_tension [OF assms(5,1,2)] spec_tension_after_bounds [OF assms(3,4), of "map snd es"]
  by auto

theorem tension_stays_in_range_witness:
  "\<exists>st'. triggerEvents example_store ''s1'' example_events = Inr st' \<and>
      (\<exists>s' t'. sessions st' ''s1'' = Some s' \<and>
         get_path s' [''state'', ''tensionLevel''] = Inr (JNum t') \<and> t' = 80)"
proof -
  have ex: "sessions example_store ''s1'' \<noteq> None" "sessionExpiry example_store ''s1'' = Some (1000 + DEFAULT_EXPIRY_MS)"
    by (simp_all add: example_store_def createSession_def empty_store_def Let_def)
  then obtain s where s: "sessions example_store ''s1'' = Some s" by blast
  have t: "get_path s [''state'', ''tensionLevel''] = Inr (JNum 0)"
    using s by (auto simp add: example_store_def createSession_def empty_store_def Let_def)
  have evs: "\<forall>e\<in>set example_events. snd e = ''increase_tension'' \<or> snd e = ''decrease_tension''"
    by (simp add: example_events_def)
  have times: "\<forall>e\<in>set example_events. fst e \<le> 1000 + DEFAULT_EXPIRY_MS"
    by (simp add: example_events_def DEFAULT_EXPIRY_MS_def)
  have val: "spec_tension_after 0 (map snd example_events) = 80"
    by (simp add: example_events_def spec_tension_after_def spec_tension_step_def)
  from tension_stays_in_range [OF s t _ _ evs] ex(2) times val
  show ?thesis by auto
qed

section \<open>Reading and writing the store\<close>

lemma getSession_live:
  "getSession now st sid = (st1, Some s) \<Longrightarrow> st1 = st \<and> sessions st sid = Some s"
  by (auto simp: getSession_def deleteSession_def split: option.splits if_splits)

lemmas example_simps =
  example_store_def example_offered_store_def offered_enter_def store_of_def empty_store_def
  example_branch_store_def branch_choice_def stored_path_def
  createSession_def setChoices_def getSession_def put_session_def DEFAULT_EXPIRY_MS_def Let_def

section \<open>updateState (C1)\<close>

lemma updateState_never_appends:
  assumes live: "getSession now st sid = (st1, Some (JObj ps))"
    and state: "map_of ps ''state'' = Some (JObj qs)"
    and dq: "distinct (map fst qs)" and du: "distinct (map fst us)"
  shows "\<exists>s'. updateState now st sid (JObj us) = Inr (put_session st sid s', s') \<and>
      get_path s' [''state'', ''storyPath''] =
        Inr (case map_of us ''storyPath'' of Some v \<Rightarrow> v
             | None \<Rightarrow> (case map_of qs ''storyPath'' of Some p \<Rightarrow> p | None \<Rightarrow> JUndef)) \<and>
      get_path s' [''state'', ''lastActionAt''] = Inr (JNum now) \<and>
      get_prop s' ''updatedAt'' = Inr (JNum now)"
proof -
  from live have st1: "st1 = st" using getSession_live by blast
  have rq: "map_of (rev qs) = map_of qs" and ru: "map_of (rev us) = map_of us"
    using dq du by (simp_all add: map_of_rev_distinct)
  show ?thesis
    using live state st1
    by (auto simp: updateState_def js_spread_def obj_assign_def map_of_fold_update update_conv'
        rq ru map_add_def split: option.splits)
qed

text \<open>
  C1, on the code. The session of the example store stands at \<open>entrance\<close> with the
  path \<open>[entrance]\<close>. \<open>updateState\<close> with \<open>{currentNode: 'foyer'}\<close> moves \<open>currentNode\<close>
  to \<open>foyer\<close> and sets \<open>lastActionAt\<close> and \<open>updatedAt\<close> to the clock reading, but the
  path is still \<open>[entrance]\<close>: the new node is not appended.
\<close>

theorem updateState_does_not_append:
  "ebind (updateState 2000 example_store ''s1'' (JObj [(''currentNode'', JStr ''foyer'')]))
     (\<lambda>r. get_path (snd r) [''state'', ''currentNode'']) = Inr (JStr ''foyer'') \<and>
   ebind (updateState 2000 example_store ''s1'' (JObj [(''currentNode'', JStr ''foyer'')]))
     (\<lambda>r. get_path (snd r) [''state'', ''storyPath'']) = Inr (JArr [JStr ''entrance'']) \<and>
   ebind (updateState 2000 example_store ''s1'' (JObj [(''currentNode'', JStr ''foyer'')]))
     (\<lambda>r. get_path (snd r) [''state'', ''lastActionAt'']) = Inr (JNum 2000) \<and>
   ebind (updateState 2000 example_store ''s1'' (JObj [(''currentNode'', JStr ''foyer'')]))
     (\<lambda>r. get_prop (snd r) ''updatedAt'') = Inr (JNum 2000)"
  by (simp add: updateState_def example_simps js_spread_def obj_assign_def)

section \<open>A choice that is not offered (C4)\<close>

lemma find_choice_absent:
  "\<forall>c\<in>set cs. \<exists>i. get_prop c ''id'' = Inr i \<and> i \<noteq> JStr choiceId \<Longrightarrow>
     find_choice cs choiceId = Inr JUndef"
  by (induction cs) auto

text \<open>
  C4. Let the session be stored, let its offered choices be an array, and let every
  offered choice have an \<open>id\<close> that is not the requested one. Then \<open>makeChoice\<close> returns
  the null pair; the stored session is the same value as before, or has been evicted
  because its expiry time had passed; and when the session had not expired the whole
  store is unchanged.
\<close>

theorem makeChoice_not_offered:
  assumes "sessions st sid = Some s"
    and "get_path s [''state'', ''choices''] = Inr (JArr cs)"
    and "\<forall>c\<in>set cs. \<exists>i. get_prop c ''id'' = Inr i \<and> i \<noteq> JStr choiceId"
  shows "\<exists>st'. makeChoice now st sid choiceId = Inr (st', JNull, JNull) \<and>
           (sessions st' sid = Some s \<or> sessions st' sid = None) \<and>
           (snd (getSession now st sid) \<noteq> None \<longrightarrow> st' = st)"
proof (cases "getSession now st sid")
  case (Pair st1 r)
  show ?thesis
  proof (cases r)
    case None
    with Pair assms(1) show ?thesis
      by (auto simp: makeChoice_def getSession_def deleteSession_def split: option.splits if_splits)
  next
    case (Some s')
    with Pair have "st1 = st" "sessions st sid = Some s'" using getSession_live by blast+
    with assms(1) have "s' = s" by simp
    with Pair Some \<open>st1 = st\<close> assms(2) find_choice_absent [OF assms(3)] assms(1) show ?thesis
      by (simp add: makeChoice_def)
  qed
qed

theorem makeChoice_not_offered_witness:
  "makeChoice 5000 example_offered_store ''s1'' ''explore'' = Inr (example_offered_store, JNull, JNull)"
proof -
  obtain s where s: "sessions example_offered_store ''s1'' = Some s"
    by (simp add: example_simps)
  have c: "get_path s [''state'', ''choices''] = Inr offered_enter"
    using s by (auto simp: example_simps)
  have ids: "\<forall>c\<in>set [JObj [(''id'', JStr ''enter''), (''text'', JStr ''Enter through the front door''),
                 (''targetNode'', JStr ''foyer'')]]. \<exists>i. get_prop c ''id'' = Inr i \<and> i \<noteq> JStr ''explore''"
    by simp
  have live: "snd (getSession 5000 example_offered_store ''s1'') \<noteq> None"
    by (simp add: example_simps)
  from makeChoice_not_offered [OF s c [unfolded offered_enter_def] ids, of 5000] live
  show ?thesis by auto
qed

section \<open>An accepted choice (C3)\<close>

lemma split_on_not_Nil: "split_on c s \<noteq> []"
  by (induction s) (auto split: list.splits)












section \<open>Expiry on read (C2)\<close>



lemma frame_trans: "frame a b \<Longrightarrow> frame b c \<Longrightarrow> frame a c"
  by (auto simp: frame_def)



















section \<open>Export and import (C9)\<close>











section \<open>Model selection (C5) and failed models (C10)\<close>

lemma set_insert_by [simp]: "set (insert_by cmp x ys) = insert x (set ys)"
  by (induction ys) auto

lemma set_sort_by [simp]: "set (sort_by cmp xs) = set xs"
  by (induction xs) (simp_all add: sort_by_def)

lemma distinct_map_insert_by:
  "distinct (map f (insert_by cmp x ys)) \<longleftrightarrow> f x \<notin> f ` set ys \<and> distinct (map f ys)"
  by (induction ys) auto

lemma distinct_map_sort_by: "distinct (map f (sort_by cmp xs)) \<longleftrightarrow> distinct (map f xs)"
proof (induction xs)
  case Nil
  then show ?case by (simp add: sort_by_def)
next
  case (Cons x xs)
  have "sort_by cmp (x # xs) = insert_by cmp x (sort_by cmp xs)" by (simp add: sort_by_def)
  with Cons show ?case by (simp add: distinct_map_insert_by)
qed

lemma sort_by_Nil_iff: "sort_by cmp xs = [] \<longleftrightarrow> xs = []"
  by (metis set_sort_by set_empty)

lemma first_or_null_None: "first_or_null xs = None \<longleftrightarrow> xs = []"
  by (cases xs) (simp_all add: first_or_null_def)

lemma first_healthy_uncensored_Some:
  "first_healthy_uncensored mgr ids = Some m \<Longrightarrow>
     \<exists>i\<in>set ids. map_of (models mgr) i = Some m \<and> is_healthy mgr i"
  by (induction ids) (auto split: option.splits if_splits)

lemma getFallbackChain_models: "getFallbackChain mgr rt = (mgr1, c) \<Longrightarrow>
    models mgr1 = models mgr \<and> healthStatus mgr1 = healthStatus mgr \<and> usageCount mgr1 = usageCount mgr \<and>
    rotationConfig mgr1 = rotationConfig mgr \<and> fallbackChains mgr1 = (fallbackChains mgr)(rt \<mapsto> c)"
  by (auto simp: getFallbackChain_def Let_def split: option.splits)

lemma is_healthy_cong: "healthStatus a = healthStatus b \<Longrightarrow> is_healthy a = is_healthy b"
  by (simp add: is_healthy_def fun_eq_iff)

text \<open>
  C5, on the code. A manager as its constructor leaves it holds the twelve default
  models, all healthy, and none of them has the capability \<open>voice\<close>. For the request
  type \<open>voice_synthesis\<close> the chain is built empty and \<open>getBestModel\<close> returns \<open>null\<close> at
  its first test, before the fall-back to any healthy model is reached.
\<close>

theorem getBestModel_empty_chain:
  "snd (getBestModel (new_ModelManager 0 DEFAULT_ROTATION_CONFIG) ''voice_synthesis'') = None \<and>
   length (getHealthyModels (new_ModelManager 0 DEFAULT_ROTATION_CONFIG)) = 12"
  by (simp add: getBestModel_def getFallbackChain_def buildChainForRequest_def getCapabilityForRequest_def
      getModelsByCapability_def new_ModelManager_def DEFAULT_MODELS_def registerModel_def
      getHealthyModels_def is_healthy_def sort_by_def Let_def)

text \<open>
  What \<open>getBestModel\<close> does return: \<open>null\<close> exactly when the chain of the request type
  is empty or no registered model is healthy.
\<close>

lemma getBestModel_result:
  assumes "getFallbackChain mgr rt = (mgr1, c)" and "keys_are_ids mgr"
  shows "snd (getBestModel mgr rt) = None \<longleftrightarrow>
           chain c = [] \<or> (\<forall>m\<in>set (map snd (models mgr)). \<not> is_healthy mgr (model_id m))"
proof -
  from getFallbackChain_models [OF assms(1)] have same: "models mgr1 = models mgr" "is_healthy mgr1 = is_healthy mgr"
    using is_healthy_cong by blast+
  show ?thesis
  proof (cases "chain c = []")
    case True
    with assms show ?thesis by (simp add: getBestModel_def)
  next
    case False
    show ?thesis
    proof (cases "first_healthy_uncensored mgr1 (chain c)")
      case (Some m)
      from first_healthy_uncensored_Some [OF this] same obtain i where
        i: "map_of (models mgr) i = Some m" "is_healthy mgr i" by auto
      then have "(i, m) \<in> set (models mgr)" by (simp add: map_of_SomeD)
      with assms(2) i have "m \<in> set (map snd (models mgr))" "is_healthy mgr (model_id m)"
        by (force simp: keys_are_ids_def)+
      with assms(1) False Some show ?thesis
        by (auto simp: getBestModel_def)
    next
      case None
      let ?cap = "filter (\<lambda>m. is_healthy mgr1 (model_id m)) (getModelsByCapability mgr1 (getCapabilityForRequest rt))"
      show ?thesis
      proof (cases "?cap = []")
        case True
        let ?h = "filter (\<lambda>m. is_healthy mgr1 (model_id m)) (map snd (models mgr1))"
        from assms(1) False None True
        have r: "snd (getBestModel mgr rt) = first_or_null (sort_by uncensored_then_quality ?h)"
          by (simp add: getBestModel_def Let_def)
        have "first_or_null (sort_by uncensored_then_quality ?h) = None \<longleftrightarrow> ?h = []"
          using first_or_null_None [of "sort_by uncensored_then_quality ?h"] sort_by_Nil_iff [of uncensored_then_quality ?h]
          by simp
        also have "\<dots> \<longleftrightarrow> (\<forall>m\<in>set (map snd (models mgr)). \<not> is_healthy mgr (model_id m))"
          using same by (simp add: filter_empty_conv)
        finally show ?thesis using r False by simp
      next
        case F2: False
        then obtain m where "m \<in> set ?cap" by (cases ?cap) auto
        then have "m \<in> set (map snd (models mgr))" "is_healthy mgr (model_id m)"
          using same by (auto simp: getModelsByCapability_def)
        with assms(1) False None F2 show ?thesis
          by (auto simp: getBestModel_def Let_def)
      qed
    qed
  qed
qed

lemma set_update_subset: "set (AList.update k v al) \<subseteq> insert (k, v) (set al)"
  by (induction al) auto

lemma keys_are_ids_register: "keys_are_ids mgr \<Longrightarrow> keys_are_ids (registerModel now m mgr)"
proof -
  assume k: "keys_are_ids mgr"
  have "set (AList.update (model_id m) m (models mgr)) \<subseteq> insert (model_id m, m) (set (models mgr))"
    by (rule set_update_subset)
  with k have "\<forall>p\<in>set (AList.update (model_id m) m (models mgr)). model_id (snd p) = fst p"
    by (auto simp: keys_are_ids_def)
  moreover from k have "distinct (map fst (AList.update (model_id m) m (models mgr)))"
    by (simp add: keys_are_ids_def distinct_update)
  ultimately show ?thesis by (simp add: keys_are_ids_def registerModel_def)
qed

lemma buildChain_distinct: "keys_are_ids mgr \<Longrightarrow> distinct (buildChainForRequest mgr rt)"
proof -
  assume k: "keys_are_ids mgr"
  have "map (model_id \<circ> snd) (models mgr) = map fst (models mgr)"
    by (rule map_cong) (use k in \<open>auto simp: keys_are_ids_def\<close>)
  moreover from k have "distinct (map fst (models mgr))" by (simp add: keys_are_ids_def)
  ultimately have d: "distinct (map model_id (map snd (models mgr)))" by (simp only: map_map)
  have f: "distinct (map model_id (filter P xs))" if "distinct (map model_id xs)" for P and xs :: "ModelConfig list"
    using that by (simp add: distinct_map_filter)
  from d have "distinct (map model_id (getModelsByCapability mgr cap))" for cap
    unfolding getModelsByCapability_def by (simp only: distinct_map_sort_by f)
  then show ?thesis
    by (simp add: buildChainForRequest_def Let_def f)
qed

lemma shrinks_refl: "shrinks a a"
  by (simp add: shrinks_def)

lemma shrinks_trans: "shrinks a b \<Longrightarrow> shrinks b c \<Longrightarrow> shrinks a c"
  by (fastforce simp: shrinks_def)

lemma getFallbackChain_good:
  assumes "good mgr" "getFallbackChain mgr rt = (mgr1, c)"
  shows "good mgr1 \<and> shrinks mgr mgr1"
proof (cases "fallbackChains mgr rt")
  case None
  with assms(2) have m1: "mgr1 = mgr\<lparr>fallbackChains := (fallbackChains mgr)(rt \<mapsto> c)\<rparr>"
    and c: "chain c = buildChainForRequest mgr rt"
    by (auto simp: getFallbackChain_def Let_def)
  from assms(1) c have "distinct (chain c)" by (simp add: good_def buildChain_distinct)
  with assms(1) m1 have "good mgr1" by (auto simp: good_def keys_are_ids_def chains_distinct_def)
  moreover from None m1 have "shrinks mgr mgr1" by (auto simp: shrinks_def)
  ultimately show ?thesis by simp
next
  case (Some c0)
  with assms(2) have "mgr1 = mgr" by (simp add: getFallbackChain_def)
  with assms(1) show ?thesis by (simp add: shrinks_refl)
qed

lemma good_frame:
  assumes "good a" "models b = models a" "fallbackChains b = fallbackChains a"
  shows "good b \<and> shrinks a b"
  using assms by (simp add: good_def keys_are_ids_def chains_distinct_def shrinks_def)

lemma performHealthChecks_frame:
  "models (fold (\<lambda>p. setModelHealth now (fst p) True (Some (elapsed (fst p)))) ps mgr) = models mgr \<and>
   fallbackChains (fold (\<lambda>p. setModelHealth now (fst p) True (Some (elapsed (fst p)))) ps mgr) = fallbackChains mgr"
  by (induction ps arbitrary: mgr) (simp_all add: setModelHealth_def)

lemma reportFailure_good:
  assumes "good mgr"
  shows "good (reportFailure now i mgr) \<and> shrinks mgr (reportFailure now i mgr)"
proof -
  have m: "models (reportFailure now i mgr) = models mgr"
    by (simp add: reportFailure_def)
  have f: "fallbackChains (reportFailure now i mgr) rt =
             map_option (\<lambda>c. c\<lparr>chain := remove1 i (chain c)\<rparr>) (fallbackChains mgr rt)" for rt
    by (simp add: reportFailure_def)
  from assms m have "keys_are_ids (reportFailure now i mgr)" by (simp add: good_def keys_are_ids_def)
  moreover from assms have "chains_distinct (reportFailure now i mgr)"
    unfolding chains_distinct_def good_def f by auto
  moreover have "shrinks mgr (reportFailure now i mgr)"
    unfolding shrinks_def f using set_remove1_subset by fastforce
  ultimately show ?thesis by (simp add: good_def)
qed

lemma registerModel_good:
  assumes "good mgr"
  shows "good (registerModel now m mgr) \<and> shrinks mgr (registerModel now m mgr)"
proof -
  have f: "fallbackChains (registerModel now m mgr) = fallbackChains mgr"
    by (simp add: registerModel_def)
  with assms keys_are_ids_register [of mgr now m] show ?thesis
    by (simp add: good_def chains_distinct_def shrinks_def)
qed

lemma model_exec_good:
  assumes "good mgr"
  shows "good (model_exec now mgr call) \<and> shrinks mgr (model_exec now mgr call)"
proof (cases call)
  case (RegisterModel m)
  with registerModel_good [OF assms] show ?thesis by simp
next
  case (GetBestModel rt)
  obtain mgr1 c where g: "getFallbackChain mgr rt = (mgr1, c)" by (cases "getFallbackChain mgr rt")
  then have "fst (getBestModel mgr rt) = mgr1"
    by (simp add: getBestModel_def Let_def split: option.splits)
  with GetBestModel getFallbackChain_good [OF assms g] show ?thesis by simp
next
  case (GetRotatedModel rt)
  obtain mgr1 c where g: "getFallbackChain mgr rt = (mgr1, c)" by (cases "getFallbackChain mgr rt")
  then have "fst (getRotatedModel mgr rt) = mgr1"
    by (simp add: getRotatedModel_def Let_def)
  with GetRotatedModel getFallbackChain_good [OF assms g] show ?thesis by simp
next
  case (RecordUsage i)
  with good_frame [OF assms, of "recordUsage i mgr"] show ?thesis
    by (simp add: recordUsage_def)
next
  case (ReportFailure i)
  with reportFailure_good [OF assms] show ?thesis by simp
next
  case (ReportSuccess i l)
  with good_frame [OF assms, of "reportSuccess now i l mgr"] show ?thesis
    by (simp add: reportSuccess_def recordUsage_def)
next
  case (SetModelHealth i h l)
  with good_frame [OF assms, of "setModelHealth now i h l mgr"] show ?thesis
    by (simp add: setModelHealth_def)
next
  case (PerformHealthChecks e)
  with good_frame [OF assms, of "performHealthChecks now e mgr"]
    performHealthChecks_frame [of now e "models mgr" mgr] show ?thesis
    by (simp add: performHealthChecks_def)
next
  case (UpdateRotationConfig r)
  with good_frame [OF assms, of "updateRotationConfig r mgr"] show ?thesis
    by (simp add: updateRotationConfig_def)
qed

lemma model_run_good:
  "good mgr \<Longrightarrow> good (model_run mgr calls) \<and> shrinks mgr (model_run mgr calls)"
proof (induction calls arbitrary: mgr)
  case Nil
  then show ?case by (simp add: model_run_def shrinks_refl)
next
  case (Cons e es)
  from model_exec_good [OF Cons.prems, of "fst e" "snd e"]
  have g: "good (model_exec (fst e) mgr (snd e))" and s: "shrinks mgr (model_exec (fst e) mgr (snd e))" by simp_all
  from Cons.IH [OF g] s show ?case
    using shrinks_trans by (auto simp: model_run_def)
qed

lemma good_new: "good (new_ModelManager now config)"
proof -
  have "good (fold (registerModel now) ms mgr)" if "good mgr" for ms mgr
    using that
  proof (induction ms arbitrary: mgr)
    case Nil
    then show ?case by simp
  next
    case (Cons m ms)
    from registerModel_good [OF Cons.prems] have "good (registerModel now m mgr)" by simp
    from Cons.IH [OF this] show ?case by simp
  qed
  moreover have "good \<lparr>models = [], rotationConfig = config, fallbackChains = Map.empty,
        healthStatus = Map.empty, usageCount = Map.empty\<rparr>"
    by (simp add: good_def keys_are_ids_def chains_distinct_def)
  ultimately show ?thesis by (simp add: new_ModelManager_def)
qed

lemma reportFailure_removes:
  assumes "good mgr" "fallbackChains mgr rt = Some c"
  shows "\<exists>c'. fallbackChains (reportFailure now i mgr) rt = Some c' \<and> i \<notin> set (chain c')"
proof -
  from assms have "distinct (chain c)" by (simp add: good_def chains_distinct_def)
  then have "i \<notin> set (remove1 i (chain c))" by simp
  with assms(2) show ?thesis by (simp add: reportFailure_def)
qed

lemma select_by_cases:
  "fst (select_by strategy model usage best mu) = best \<or>
   fst (select_by strategy model usage best mu) = Some model"
  by (simp add: select_by_def)

lemma rotate_in_chain:
  "rotate mgr strategy ids best mu = Some m \<Longrightarrow>
     best = Some m \<or> (\<exists>i\<in>set ids. map_of (models mgr) i = Some m)"
proof (induction ids arbitrary: best mu)
  case Nil
  then show ?case by simp
next
  case (Cons i ids)
  show ?case
  proof (cases "map_of (models mgr) i")
    case None
    with Cons.prems have "rotate mgr strategy ids best mu = Some m" by simp
    from Cons.IH [OF this] show ?thesis by auto
  next
    case (Some model)
    show ?thesis
    proof (cases "is_healthy mgr i")
      case False
      with Some Cons.prems have "rotate mgr strategy ids best mu = Some m" by simp
      from Cons.IH [OF this] show ?thesis by auto
    next
      case True
      show ?thesis
      proof (cases "strategy = ''round_robin''")
        case rr: True
        with Some True Cons.prems have "model = m" by simp
        with Some show ?thesis by simp
      next
        case False
        define r where "r = select_by strategy model (case usageCount mgr i of None \<Rightarrow> 0 | Some n \<Rightarrow> n) best mu"
        with Some True False Cons.prems have "rotate mgr strategy ids (fst r) (snd r) = Some m"
          by (simp add: Let_def)
        from Cons.IH [OF this] have "fst r = Some m \<or> (\<exists>i\<in>set ids. map_of (models mgr) i = Some m)" .
        moreover have "fst r = best \<or> fst r = Some model"
          unfolding r_def by (rule select_by_cases)
        ultimately show ?thesis using Some by auto
      qed
    qed
  qed
qed

lemma hd_filter_holds: "filter P xs \<noteq> [] \<Longrightarrow> P (hd (filter P xs))"
proof -
  assume "filter P xs \<noteq> []"
  then have "hd (filter P xs) \<in> set (filter P xs)" by (rule hd_in_set)
  then show ?thesis by simp
qed

lemma first_or_null_Some: "first_or_null xs = Some x \<Longrightarrow> x \<in> set xs"
  by (cases xs) (simp_all add: first_or_null_def)

lemma getBestModel_from_chain_or_healthy:
  assumes gf: "getFallbackChain mgr rt = (mgr, c)" and k: "keys_are_ids mgr"
    and r: "snd (getBestModel mgr rt) = Some m"
  shows "(model_id m \<in> set (chain c) \<and> first_healthy_uncensored mgr (chain c) = Some m) \<or>
         (first_healthy_uncensored mgr (chain c) = None \<and> is_healthy mgr (model_id m))"
proof (cases "first_healthy_uncensored mgr (chain c)")
  case (Some m')
  from first_healthy_uncensored_Some [OF Some] obtain j where
    j: "j \<in> set (chain c)" "map_of (models mgr) j = Some m'" by blast
  then have "(j, m') \<in> set (models mgr)" by (simp add: map_of_SomeD)
  with k have "model_id m' = j" by (force simp: keys_are_ids_def)
  moreover from gf r Some have "m = m'"
    by (simp add: getBestModel_def split: if_splits)
  ultimately show ?thesis using j Some by simp
next
  case None
  let ?cap = "filter (\<lambda>m. is_healthy mgr (model_id m)) (getModelsByCapability mgr (getCapabilityForRequest rt))"
  let ?h = "filter (\<lambda>m. is_healthy mgr (model_id m)) (map snd (models mgr))"
  show ?thesis
  proof (cases "?cap = []")
    case True
    with gf r None have "first_or_null (sort_by uncensored_then_quality ?h) = Some m"
      by (simp add: getBestModel_def Let_def split: if_splits)
    from first_or_null_Some [OF this] have "m \<in> set ?h" by simp
    then show ?thesis using None by simp
  next
    case False
    with gf r None have "m = hd ?cap"
      by (simp add: getBestModel_def Let_def split: if_splits)
    with hd_filter_holds [OF False] show ?thesis using None by simp
  qed
qed

lemma reportSuccess_effect:
  "healthStatus (reportSuccess now i lat mgr) =
     (healthStatus mgr)(i \<mapsto> \<lparr>healthy = True, lastCheck = now, latency = lat\<rparr>) \<and>
   usageCount (reportSuccess now i lat mgr) =
     (usageCount mgr)(i \<mapsto> (case usageCount mgr i of None \<Rightarrow> 0 | Some n \<Rightarrow> n) + 1) \<and>
   fallbackChains (reportSuccess now i lat mgr) = fallbackChains mgr \<and>
   models (reportSuccess now i lat mgr) = models mgr \<and>
   rotationConfig (reportSuccess now i lat mgr) = rotationConfig mgr"
  by (simp add: reportSuccess_def recordUsage_def)

text \<open>
  C10, as amended. Take a manager reached from the constructor by any calls, a request
  type whose chain is cached in it, and then \<open>reportFailure\<close> for a model followed by
  any calls (\<open>reportSuccess\<close> for that model, health checks and a new registration of
  it included). The chain of that request type is still cached and does not hold the
  model. \<open>getRotatedModel\<close> for that request type works on this chain and never returns
  the model. \<open>getBestModel\<close> works on this chain too, and when it returns the model, then
  its loop over the chain has found no healthy uncensored model and the model is healthy:
  it comes from the fall-back over the registry. \<open>reportSuccess\<close> for the model sets its
  health entry to healthy with the clock reading and the latency, adds one to its usage
  count, and leaves the registry and the cached chains as they are.
\<close>

theorem failed_model_stays_out:
  assumes before: "mgr0 = model_run (new_ModelManager t0 config) pre"
    and cached: "fallbackChains mgr0 rt = Some c"
    and after: "mgr2 = model_run (reportFailure now i mgr0) post"
  shows "\<exists>c'. fallbackChains mgr2 rt = Some c' \<and> i \<notin> set (chain c') \<and>
               fallbackChains (fst (getRotatedModel mgr2 rt)) rt = Some c' \<and>
               (\<forall>m. snd (getRotatedModel mgr2 rt) = Some m \<longrightarrow> model_id m \<noteq> i) \<and>
               fallbackChains (fst (getBestModel mgr2 rt)) rt = Some c' \<and>
               (\<forall>m. snd (getBestModel mgr2 rt) = Some m \<and> model_id m = i \<longrightarrow>
                      first_healthy_uncensored mgr2 (chain c') = None \<and> is_healthy mgr2 i) \<and>
               (\<forall>t lat.
                  healthStatus (reportSuccess t i lat mgr2) =
                    (healthStatus mgr2)(i \<mapsto> \<lparr>healthy = True, lastCheck = t, latency = lat\<rparr>) \<and>
                  usageCount (reportSuccess t i lat mgr2) =
                    (usageCount mgr2)(i \<mapsto> (case usageCount mgr2 i of None \<Rightarrow> 0 | Some n \<Rightarrow> n) + 1) \<and>
                  models (reportSuccess t i lat mgr2) = models mgr2 \<and>
                  fallbackChains (reportSuccess t i lat mgr2) = fallbackChains mgr2)"
proof -
  from before have g0: "good mgr0" using model_run_good [OF good_new] by simp
  from model_exec_good [OF g0, of now "ReportFailure i"] have g1: "good (reportFailure now i mgr0)" by simp
  from reportFailure_removes [OF g0 cached, of now i] obtain c1 where
    c1: "fallbackChains (reportFailure now i mgr0) rt = Some c1" "i \<notin> set (chain c1)" by blast
  from model_run_good [OF g1, of post] after have g2: "good mgr2" and sh: "shrinks (reportFailure now i mgr0) mgr2"
    by simp_all
  from sh c1 obtain c' where c': "fallbackChains mgr2 rt = Some c'" "set (chain c') \<subseteq> set (chain c1)"
    unfolding shrinks_def by blast
  with c1 have out: "i \<notin> set (chain c')" by auto
  from c' have gf: "getFallbackChain mgr2 rt = (mgr2, c')" by (simp add: getFallbackChain_def)
  then have rot: "getRotatedModel mgr2 rt = (mgr2, rotate mgr2 (rotationStrategy (rotationConfig mgr2)) (chain c') None None)"
    by (simp add: getRotatedModel_def)
  have R: "model_id m \<noteq> i" if "snd (getRotatedModel mgr2 rt) = Some m" for m
  proof -
    from that rot rotate_in_chain [of mgr2 _ "chain c'" None None m]
    obtain j where j: "j \<in> set (chain c')" "map_of (models mgr2) j = Some m" by auto
    then have "(j, m) \<in> set (models mgr2)" by (simp add: map_of_SomeD)
    with g2 have "model_id m = j" by (force simp: good_def keys_are_ids_def)
    with j out show ?thesis by auto
  qed
  from gf have best: "fst (getBestModel mgr2 rt) = mgr2"
    by (simp add: getBestModel_def Let_def split: option.splits)
  from g2 have k2: "keys_are_ids mgr2" by (simp add: good_def)
  have B: "first_healthy_uncensored mgr2 (chain c') = None \<and> is_healthy mgr2 i"
    if "snd (getBestModel mgr2 rt) = Some m \<and> model_id m = i" for m
    using getBestModel_from_chain_or_healthy [OF gf k2, of m] that out by auto
  have S: "\<forall>t lat.
      healthStatus (reportSuccess t i lat mgr2) =
        (healthStatus mgr2)(i \<mapsto> \<lparr>healthy = True, lastCheck = t, latency = lat\<rparr>) \<and>
      usageCount (reportSuccess t i lat mgr2) =
        (usageCount mgr2)(i \<mapsto> (case usageCount mgr2 i of None \<Rightarrow> 0 | Some n \<Rightarrow> n) + 1) \<and>
      models (reportSuccess t i lat mgr2) = models mgr2 \<and>
      fallbackChains (reportSuccess t i lat mgr2) = fallbackChains mgr2"
    by (simp add: reportSuccess_effect)
  from rot c' have rot': "fallbackChains (fst (getRotatedModel mgr2 rt)) rt = Some c'" by simp
  from best c' have best': "fallbackChains (fst (getBestModel mgr2 rt)) rt = Some c'" by simp
  from c'(1) out rot' R best' B S show ?thesis by blast
qed

theorem failed_model_stays_out_witness:
  "(\<exists>c. fallbackChains served_manager ''story_generation'' = Some c \<and> ''llama-3.2-90b'' \<in> set (chain c)) \<and>
   (\<exists>c'. fallbackChains (model_run (reportFailure 2 ''llama-3.2-90b'' served_manager) calls_after_failure)
            ''story_generation'' = Some c' \<and>
          ''llama-3.2-90b'' \<notin> set (chain c') \<and>
          healthStatus (reportSuccess 9 ''llama-3.2-90b'' 80
             (model_run (reportFailure 2 ''llama-3.2-90b'' served_manager) calls_after_failure)) ''llama-3.2-90b''
            = Some \<lparr>healthy = True, lastCheck = 9, latency = 80\<rparr>)"
proof -
  have "\<exists>c. fallbackChains served_manager ''story_generation'' = Some c \<and> ''llama-3.2-90b'' \<in> set (chain c)"
    by (simp add: served_manager_def model_run_def getBestModel_def getFallbackChain_def
        buildChainForRequest_def getCapabilityForRequest_def getModelsByCapability_def
        new_ModelManager_def DEFAULT_MODELS_def registerModel_def sort_by_def
        uncensored_then_quality_def is_healthy_def Let_def)
  then obtain c where c: "fallbackChains served_manager ''story_generation'' = Some c"
    "''llama-3.2-90b'' \<in> set (chain c)" by blast
  from failed_model_stays_out [OF served_manager_def c(1) refl, of 2 "''llama-3.2-90b''" calls_after_failure]
  have "\<exists>c'. fallbackChains (model_run (reportFailure 2 ''llama-3.2-90b'' served_manager) calls_after_failure)
            ''story_generation'' = Some c' \<and> ''llama-3.2-90b'' \<notin> set (chain c') \<and>
          healthStatus (reportSuccess 9 ''llama-3.2-90b'' 80
             (model_run (reportFailure 2 ''llama-3.2-90b'' served_manager) calls_after_failure)) ''llama-3.2-90b''
            = Some \<lparr>healthy = True, lastCheck = 9, latency = 80\<rparr>"
    by auto
  with c show ?thesis by blast
qed

text \<open>
  C10 as stated fails on the code. The manager has served \<open>story_generation\<close>, whose
  cached chain starts with \<open>llama-3.2-90b\<close>. After \<open>reportFailure\<close> and
  \<open>reportSuccess\<close> for that model and health reports that mark the nine other models of
  the chain unhealthy, the chain does not hold the model and \<open>getRotatedModel\<close> returns
  \<open>null\<close>, but \<open>getBestModel\<close> for \<open>story_generation\<close> returns \<open>llama-3.2-90b\<close>:
  selection for a request type served before does consider the model again.
\<close>

theorem getBestModel_returns_failed_model:
  "cached_chain served_manager ''story_generation'' =
     Some [''llama-3.2-90b'', ''mistral-22b'', ''llama-3.1-70b'', ''gemma-2-27b'',
           ''deepseek-coder-33b'', ''dolphin-mixtral-8x7b'', ''nous-hermes-2-mixtral'',
           ''mistral-7b'', ''wizard-vicuna-13b'', ''llama-3.2-3b''] \<and>
   cached_chain outage_manager ''story_generation'' =
     Some [''mistral-22b'', ''llama-3.1-70b'', ''gemma-2-27b'',
           ''deepseek-coder-33b'', ''dolphin-mixtral-8x7b'', ''nous-hermes-2-mixtral'',
           ''mistral-7b'', ''wizard-vicuna-13b'', ''llama-3.2-3b''] \<and>
   selected_id (getBestModel outage_manager ''story_generation'') = Some ''llama-3.2-90b'' \<and>
   selected_id (getRotatedModel outage_manager ''story_generation'') = None"
  by code_simp

section \<open>Voice modulation (C7)\<close>

lemma modifiers_neutral: "map_of modifiers ''neutral'' = Some (modifier_entry 0 1.0 0.0 0.0 0.3)"
  by (simp add: modifiers_def)

lemma getEmotionModifiers_unknown:
  "e \<notin> fst ` set modifiers \<Longrightarrow>
   getEmotionModifiers e =
     (if e \<in> set object_prototype_keys then [] else getEmotionModifiers ''neutral'')"
  by (simp add: getEmotionModifiers_def map_of_eq_None_iff [THEN iffD2] modifiers_neutral)

lemma in_range_high_voice: "in_range high_voice"
  by (simp add: in_range_def high_voice_def)

lemma modulateVoice_clamped:
  "modulator_persona m = Some p \<Longrightarrow>
   0 \<le> warmth (snd (modulateVoice now e m)) \<and> warmth (snd (modulateVoice now e m)) \<le> 1 \<and>
   0 \<le> assertiveness (snd (modulateVoice now e m)) \<and> assertiveness (snd (modulateVoice now e m)) \<le> 1 \<and>
   0 \<le> breathiness (snd (modulateVoice now e m)) \<and> breathiness (snd (modulateVoice now e m)) \<le> 1"
  by (simp add: modulateVoice_def Let_def)

lemma modifier_or_Nil: "modifier_or [] k d = d"
  by (simp add: modifier_or_def)

lemma modifier_or_neutral:
  "modifier_or (getEmotionModifiers ''neutral'') ''pitch'' 0 = 0"
  "modifier_or (getEmotionModifiers ''neutral'') ''speed'' 1 = 1"
  "modifier_or (getEmotionModifiers ''neutral'') ''warmth'' 0 = 0"
  "modifier_or (getEmotionModifiers ''neutral'') ''assertiveness'' 0 = 0"
  "modifier_or (getEmotionModifiers ''neutral'') ''breathiness'' 0 = 0"
  by (simp_all add: getEmotionModifiers_def modifiers_neutral modifier_entry_def modifier_or_def)

text \<open>
  A label that is no key of the table gives the voice parameters of \<open>neutral\<close>, also when
  it names a property of \<open>Object.prototype\<close>.
\<close>

lemma modulateVoice_unknown:
  assumes "e \<notin> fst ` set modifiers"
  shows "snd (modulateVoice now e m) = (snd (modulateVoice now ''neutral'' m))\<lparr>emotion := e\<rparr>"
proof (cases "modulator_persona m")
  case None
  then show ?thesis by (simp add: modulateVoice_def)
next
  case (Some p)
  have "modifier_or (getEmotionModifiers e) k d = modifier_or (getEmotionModifiers ''neutral'') k d"
    if "k = ''pitch'' \<and> d = 0 \<or> k = ''speed'' \<and> d = 1 \<or> k = ''warmth'' \<and> d = 0 \<or>
        k = ''assertiveness'' \<and> d = 0 \<or> k = ''breathiness'' \<and> d = 0" for k d
    using that getEmotionModifiers_unknown [OF assms]
    by (auto simp: modifier_or_Nil modifier_or_neutral)
  then show ?thesis using Some
    by (simp add: modulateVoice_def Let_def)
qed

text \<open>
  C7, on the code. A persona whose voice profile is within the ranges the type gives
  (pitch 10, speed 1.9) is modulated with the emotion \<open>surprised\<close>: the pitch returned is
  15 and the speed 2.185, above the bounds 12 and 2.0. Only warmth, assertiveness and
  breathiness pass through \<open>Math.max(0, Math.min(1, ...))\<close>; pitch and speed are returned
  as computed.
\<close>

theorem modulateVoice_out_of_range:
  "in_range (voiceProfile guide) \<and>
   pitch (snd (modulateVoice 0 ''surprised'' (new_EmotionModulator (Some guide) JUndef))) = 15 \<and>
   voice_speed (snd (modulateVoice 0 ''surprised'' (new_EmotionModulator (Some guide) JUndef))) = 2.185 \<and>
   \<not> in_range (snd (modulateVoice 0 ''surprised'' (new_EmotionModulator (Some guide) JUndef)))"
  by (simp add: modulateVoice_def new_EmotionModulator_def guide_def high_voice_def in_range_def
      getEmotionModifiers_def modifiers_def modifier_entry_def modifier_or_def Let_def)

section \<open>Rendering and the persona store (C6)\<close>

lemma villain_session_eq:
  "villain_session = snd (createSession DEFAULT_EXPIRY_MS 1000 ''s1'' empty_store ''castle'' ''player_1''
            ''text'' ''courtyard'' (JObj [(''villain'', persona_value story_villain)]))"
  by (simp add: villain_session_def villain_store_def createSession_def Let_def)

lemma getSession_villain:
  "getSession 2000 villain_store ''s1'' = (villain_store, Some villain_session)"
  by (simp add: getSession_def villain_session_def villain_store_def createSession_def Let_def
      DEFAULT_EXPIRY_MS_def empty_store_def)

lemma villain_session_props:
  "get_prop villain_session ''storyId'' = Inr (JStr ''castle'')"
  "get_prop villain_session ''id'' = Inr (JStr ''s1'')"
  "get_prop villain_session ''personas'' = Inr (JObj [(''villain'', persona_value story_villain)])"
  "get_path villain_session [''state'', ''emotionalTone'', ''primary''] = Inr (JStr ''neutral'')"
  "\<exists>ws. get_path villain_session [''context'', ''worldState''] = Inr ws"
  by (simp_all add: villain_session_eq createSession_def Let_def)

lemma applyPersonality_default:
  "applyPersonality ''A simple plan.'' default_villain = ''A simple plan, and perhaps...''"
  by (simp add: applyPersonality_def default_villain_def Let_def replace_dots_def)

lemma applyPersonality_edited:
  "applyPersonality ''A simple plan.'' (default_villain\<lparr>personality := (personality default_villain)\<lparr>openness := 0.9\<rparr>\<rparr>)
     = ''A complex and nuanced plan, and perhaps...''"
  by (simp add: applyPersonality_def default_villain_def Let_def replace_dots_def
      replace_all_ci_def starts_with_ci_def toLowerCase_def lower_char_def)

lemma applyPersonality_story:
  "applyPersonality ''A simple plan.'' story_villain = ''A simple plan.''"
  by (simp add: applyPersonality_def story_villain_def plain_personality_def Let_def)


lemma truthy_persona_value: "truthy (persona_value p)"
  by (simp add: persona_value_def)

lemma speechPatterns_default_villain: "speechPatterns default_villain = []"
  by (simp add: default_villain_def)

lemma generateDialogue_default:
  "map_sum id (fst \<circ> snd) (generateDialogue 2000 (\<lambda>n. 0) (default_manager, 0) ''villain'' ''A simple plan.'' ''neutral'' ws)
     = Inr ''A simple plan, and perhaps...''"
  using applyPersonality_default
  by (simp add: generateDialogue_def default_manager_def split_def Let_def default_villain_def)

text \<open>
  C6, on the code. A session is started for a story that brings its own persona \<open>villain\<close>;
  the session keeps that persona in \<open>personas\<close>. A node spoken by \<open>villain\<close> is rendered
  twice from the same session, cache, clock and random draws: once with the persona manager as
  its constructor leaves it, once after \<open>updatePersona\<close> has raised the openness of the
  manager's own \<open>villain\<close>. The two texts differ, and neither is the text the persona kept in
  the session gives: the session's entry only decides whether the node is voiced,
  \<open>generateDialogue\<close> reads the persona from the manager.
\<close>

theorem renderNode_follows_global_store:
  "rendered (renderNode 2000 (\<lambda>n. 0) (world_with default_manager) villain_session hall_node)
     = Inr ''A simple plan, and perhaps...'' \<and>
   rendered (renderNode 2000 (\<lambda>n. 0) (world_with edited_manager) villain_session hall_node)
     = Inr ''A complex and nuanced plan, and perhaps...'' \<and>
   applyPersonality (content hall_node) story_villain = ''A simple plan.''"
proof -
  obtain ws where ws: "get_path villain_session [''context'', ''worldState''] = Inr ws"
    using villain_session_props(5) by blast
  have a: "rendered (renderNode 2000 (\<lambda>n. 0) (world_with default_manager) villain_session hall_node)
     = Inr ''A simple plan, and perhaps...''"
    using applyPersonality_default
    by (simp add: rendered_def renderNode_def villain_session_props(1-4) ws hall_node_def world_with_def
        opt_prop_def applyPersonaVoice_def getSession_villain generateDialogue_def default_manager_def
        split_def Let_def speechPatterns_default_villain createEmotionModulator_def
        truthy_persona_value
        del: get_path.simps)
  have b: "rendered (renderNode 2000 (\<lambda>n. 0) (world_with edited_manager) villain_session hall_node)
     = Inr ''A complex and nuanced plan, and perhaps...''"
    using applyPersonality_edited
    by (simp add: rendered_def renderNode_def villain_session_props(1-4) ws hall_node_def world_with_def
        opt_prop_def applyPersonaVoice_def getSession_villain generateDialogue_def default_manager_def
        edited_manager_def updatePersona_def
        split_def Let_def speechPatterns_default_villain createEmotionModulator_def
        truthy_persona_value
        del: get_path.simps)
  from a b applyPersonality_story show ?thesis by (simp add: hall_node_def)
qed

text \<open>What the rendered text does depend on: of the persona manager, the entry of the speaker only.\<close>

lemma generateDialogue_text:
  assumes "personas (fst pmn) k = personas (fst pmn') k" and "snd pmn = snd pmn'"
  shows "map_sum id (\<lambda>r. (snd (fst r), fst (snd r))) (generateDialogue now rnd pmn k t e ws)
       = map_sum id (\<lambda>r. (snd (fst r), fst (snd r))) (generateDialogue now rnd pmn' k t e ws')"
  using assms by (simp add: generateDialogue_def split_def Let_def split: option.splits)


lemma rendered_simps:
  "rendered (Inl e) = Inl e"
  "rendered (Inr (w, t)) = Inr t"
  by (simp_all add: rendered_def)

lemma rendered_ebind:
  "rendered (ebind r f) = (case r of Inl e \<Rightarrow> Inl e | Inr x \<Rightarrow> rendered (f x))"
  by (cases r) (simp_all add: rendered_def)

lemma rendered_cache_write:
  "rendered (ebind r (\<lambda>(w1, t). Inr (g w1 t, t))) = rendered r"
  by (cases r) (auto simp: rendered_def)

lemma applyPersonaVoice_text:
  assumes "session_store w' = session_store w" and "drawn w' = drawn w"
    and "personas (personaManager w') k = personas (personaManager w) k"
  shows "rendered (applyPersonaVoice now rnd w' sid k t) = rendered (applyPersonaVoice now rnd w sid k t)"
proof (cases "getSession now (session_store w) sid")
  case (Pair st1 r)
  show ?thesis
  proof (cases r)
    case None
    with Pair assms show ?thesis by (simp add: applyPersonaVoice_def rendered_def)
  next
    case (Some session)
    have "rendered (ebind (generateDialogue now rnd (personaManager w', drawn w') k t e ws) (\<lambda>(pmn, m, v). Inr (f pmn, m)))
        = rendered (ebind (generateDialogue now rnd (personaManager w, drawn w) k t e ws) (\<lambda>(pmn, m, v). Inr (g pmn, m)))"
      for e ws f g
      using assms by (simp add: generateDialogue_def split_def Let_def rendered_def split: option.splits)
    with Pair Some assms show ?thesis
      by (simp add: applyPersonaVoice_def rendered_ebind split: sum.splits)
  qed
qed

lemma renderNode_speaker_entry:
  assumes "cache w' = cache w" and "session_store w' = session_store w" and "drawn w' = drawn w"
    and "\<And>k. opt_prop (node_metadata node) ''speaker'' = Inr (JStr k) \<Longrightarrow>
           personas (personaManager w') k = personas (personaManager w) k"
  shows "rendered (renderNode now rnd w' session node) = rendered (renderNode now rnd w session node)"
proof -
  define voiced where "voiced = (\<lambda>w sp.
     if truthy sp
     then ebind (get_prop session ''personas'') (\<lambda>ps.
          ebind (as_key sp) (\<lambda>k.
          ebind (get_prop ps k) (\<lambda>persona.
            if truthy persona
            then ebind (get_prop session ''id'') (\<lambda>i.
                 ebind (as_key i) (\<lambda>sessionId.
                   applyPersonaVoice now rnd w sessionId k (content node)))
            else Inr (w, content node))))
     else Inr (w, content node))"
  have key: "rendered (voiced w' sp) = rendered (voiced w sp)"
    if "opt_prop (node_metadata node) ''speaker'' = Inr sp" for sp
  proof (cases sp)
    case (JStr k)
    with that assms(4) have "personas (personaManager w') k = personas (personaManager w) k" by simp
    from applyPersonaVoice_text [OF assms(2,3) this] JStr show ?thesis
      by (simp add: voiced_def rendered_ebind rendered_simps split: sum.splits)
  qed (simp_all add: voiced_def rendered_simps rendered_ebind split: sum.splits)
  have unfold: "renderNode now rnd w session node =
     ebind (get_prop session ''storyId'') (\<lambda>storyId.
     ebind (as_key storyId) (\<lambda>sid.
       if (case cache w (sid @ ''_'' @ node_id node) of Some cached \<Rightarrow> now < expiresAt cached | None \<Rightarrow> False)
       then Inr (w, cache_data (the (cache w (sid @ ''_'' @ node_id node))))
       else ebind (opt_prop (node_metadata node) ''speaker'') (\<lambda>speakerId.
            ebind (voiced w speakerId)
              (\<lambda>(w1, text).
                 Inr (w1\<lparr>cache := (cache w1)(sid @ ''_'' @ node_id node \<mapsto>
                            \<lparr>cache_data = text, expiresAt = now + 5 * 60 * 1000\<rparr>)\<rparr>,
                      text)))))" for w
    by (simp only: renderNode_def voiced_def Let_def)
  show ?thesis
  proof (cases "get_prop session ''storyId''")
    case Inl
    then show ?thesis by (simp add: unfold rendered_simps)
  next
    case (Inr storyId)
    show ?thesis
    proof (cases "as_key storyId")
      case Inl
      with Inr show ?thesis by (simp add: unfold rendered_simps)
    next
      case sid: (Inr sid)
      show ?thesis
      proof (cases "opt_prop (node_metadata node) ''speaker''")
        case Inl
        with Inr sid assms(1) show ?thesis by (simp add: unfold rendered_simps)
      next
        case sp: (Inr sp)
        from key [OF sp] Inr sid sp assms(1) show ?thesis
          by (simp add: unfold rendered_simps rendered_cache_write)
      qed
    qed
  qed
qed

end
